theory Spec2Isabelle
  imports Complex_Main "HOL-Library.Multiset" "HOL-Library.Char_ord" "HOL-Library.List_Lexorder"
begin

section \<open>Errors\<close>

text \<open>
  The Python exceptions that the modelled functions raise.  A function that can raise
  returns the exception as a value.
\<close>

datatype error =
    YAMLError
  | KeyError string
  | IndexError
  | AttributeError
  | TypeError
  | AssertionError
  | MultipleObjectsReturned
  | EsiError
  | ZeroDivisionError
  | ValueError
  | DoesNotExist
  | DatabaseError
  | OSError

section \<open>moonplanner/tasks.py: extraction events from notifications\<close>

subsection \<open>Data\<close>

text \<open>
  The mapping that \<open>yaml.safe_load\<close> returns for the text of a moon mining
  notification.  A key that the text does not have is \<open>None\<close>; subscripting it raises
  \<open>KeyError\<close>.  Times are integers (LDAP ticks), volumes are rationals.
\<close>

record parsed_text =
  structureID :: "int option"
  moonID :: "int option"
  readyTime :: "int option"
  autoTime :: "int option"
  oreVolumeByType :: "(int \<times> rat) list option"

text \<open>
  What \<open>yaml.safe_load\<close> makes of the text of a notification: it raises, or it returns
  a value that is no mapping (\<open>None\<close> for the empty text, a string, a list), or it
  returns a mapping.
\<close>

datatype yaml_text = Invalid_yaml | Not_a_mapping | Mapping parsed_text

text \<open>
  A notification as the external API returns it: \<open>ntype\<close> is its \<open>type\<close>, and
  \<open>ntext\<close> is what \<open>yaml.safe_load\<close> makes of its \<open>text\<close>.
\<close>

record notification =
  timestamp :: int
  ntype :: string
  ntext :: yaml_text

record extraction =
  pk :: nat
  refinery_id :: int
  ready_time :: int
  auto_time :: int

record extraction_product =
  extraction_pk :: nat
  eve_type_id :: int
  volume :: rat

text \<open>
  The rows the loop reads and writes: \<open>Refinery\<close> (its id and its moon, a moon being
  identified by the id of its \<open>EveMoon\<close>), \<open>Moon\<close>, \<open>Extraction\<close> and
  \<open>ExtractionProduct\<close>.
\<close>

record database =
  refineries :: "int \<rightharpoonup> int option"
  moons :: "int set"
  extractions :: "extraction list"
  extraction_products :: "extraction_product list"
  next_pk :: nat

text \<open>
  What lies outside the sources.  What the external API can resolve:
  \<open>get_or_create_esi\<close> raises for an id that is neither stored nor known to the API.
  And \<open>app_utils.datetime.ldap_time_2_datetime\<close>, a function of a library that turns
  LDAP time (ticks of 100 nanoseconds since 1601) into a time, here in microseconds since
  1970; it computes in floating point and is taken as it is.
\<close>

record esi =
  eve_moon_known :: "int \<Rightarrow> bool"
  eve_type_known :: "int \<Rightarrow> bool"
  ldap_time_2_datetime :: "int \<Rightarrow> int"

text \<open>
  The keys of the dictionary \<open>last_extraction_started\<close>.  The loop stores under the
  Python builtin \<open>id\<close> and looks up under the structure id of the notification.
\<close>

datatype dict_key = Builtin_id | Structure_id int

text \<open>
  The local variables of the loop together with the database.  A value of
  \<open>last_extraction_started\<close> is the primary key of the stored \<open>Extraction\<close>
  object, \<open>None\<close> once \<open>delete\<close> was called on that object.
\<close>

record loop_state =
  db :: database
  last_extraction_started :: "dict_key \<rightharpoonup> nat option"
  moon_updated :: bool

type_synonym outcome = "error option \<times> loop_state"

subsection \<open>Operations\<close>

definition relevant_types :: "string list" where
  "relevant_types =
    [''MoonminingAutomaticFracture'',
     ''MoonminingExtractionCancelled'',
     ''MoonminingExtractionFinished'',
     ''MoonminingExtractionStarted'',
     ''MoonminingLaserFired'']"

text \<open>Sequencing: an exception ends the run and keeps what was written so far.\<close>

definition and_then :: "outcome \<Rightarrow> (loop_state \<Rightarrow> outcome) \<Rightarrow> outcome" where
  "and_then r f = (case r of (Some e, s) \<Rightarrow> (Some e, s) | (None, s) \<Rightarrow> f s)"

text \<open>\<open>Refinery.objects.get(id=structure_id)\<close>, \<open>None\<close> for \<open>DoesNotExist\<close>.\<close>

definition get_refinery :: "database \<Rightarrow> int \<Rightarrow> int option" where
  "get_refinery d structure_id =
     (if structure_id \<in> dom (refineries d) then Some structure_id else None)"

text \<open>
  Lines 259 to 267: the moon of the refinery is taken from the notification, once per run.
\<close>

definition update_refinery_moon :: "esi \<Rightarrow> parsed_text \<Rightarrow> int option \<Rightarrow> loop_state \<Rightarrow> outcome" where
  "update_refinery_moon api p refinery s =
     (case refinery of
        None \<Rightarrow> (None, s)
      | Some rid \<Rightarrow>
          if moon_updated s then (None, s)
          else
            let s1 = s\<lparr>moon_updated := True\<rparr> in
            (case moonID p of
               None \<Rightarrow> (Some (KeyError ''moonID''), s1)
             | Some m \<Rightarrow>
                 if \<not> eve_moon_known api m then (Some EsiError, s1)
                 else
                   let d1 = (db s1)\<lparr>moons := insert m (moons (db s1))\<rparr> in
                   if refineries d1 rid \<noteq> Some (Some m)
                   then (None, s1\<lparr>db := d1\<lparr>refineries := (refineries d1)(rid \<mapsto> Some m)\<rparr>\<rparr>)
                   else (None, s1\<lparr>db := d1\<rparr>)))"

text \<open>\<open>Extraction.objects.get_or_create(refinery=..., ready_time=..., defaults=...)\<close>\<close>

definition extraction_get_or_create ::
  "int \<Rightarrow> int \<Rightarrow> int \<Rightarrow> database \<Rightarrow> error + (nat \<times> database)" where
  "extraction_get_or_create rid ready auto d =
     (case filter (\<lambda>e. refinery_id e = rid \<and> ready_time e = ready) (extractions d) of
        [] \<Rightarrow>
          Inr (next_pk d,
               d\<lparr>extractions :=
                    extractions d @
                      [\<lparr>pk = next_pk d, refinery_id = rid, ready_time = ready, auto_time = auto\<rparr>],
                  next_pk := Suc (next_pk d)\<rparr>)
      | [e] \<Rightarrow> Inr (pk e, d)
      | _ \<Rightarrow> Inl MultipleObjectsReturned)"

text \<open>
  \<open>ExtractionProduct.objects.get_or_create(extraction=..., eve_type=..., defaults=...)\<close>
\<close>

definition product_get_or_create :: "nat \<Rightarrow> int \<Rightarrow> rat \<Rightarrow> database \<Rightarrow> error + database" where
  "product_get_or_create e t v d =
     (case filter (\<lambda>p. extraction_pk p = e \<and> eve_type_id p = t) (extraction_products d) of
        [] \<Rightarrow>
          Inr (d\<lparr>extraction_products :=
                  extraction_products d @ [\<lparr>extraction_pk = e, eve_type_id = t, volume = v\<rparr>]\<rparr>)
      | [p] \<Rightarrow> Inr d
      | _ \<Rightarrow> Inl MultipleObjectsReturned)"

text \<open>Lines 281 to 290: the products of a started extraction.\<close>

fun add_products :: "esi \<Rightarrow> nat \<Rightarrow> (int \<times> rat) list \<Rightarrow> loop_state \<Rightarrow> outcome" where
  "add_products api e [] s = (None, s)"
| "add_products api e ((ore_type_id, ore_volume) # rest) s =
     (if \<not> eve_type_known api ore_type_id then (Some EsiError, s)
      else
        (case product_get_or_create e ore_type_id ore_volume (db s) of
           Inl err \<Rightarrow> (Some err, s)
         | Inr d \<Rightarrow> add_products api e rest (s\<lparr>db := d\<rparr>)))"

text \<open>Lines 272 to 290, for a known refinery.\<close>

definition extraction_started :: "esi \<Rightarrow> parsed_text \<Rightarrow> int \<Rightarrow> loop_state \<Rightarrow> outcome" where
  "extraction_started api p rid s =
     (case readyTime p of
        None \<Rightarrow> (Some (KeyError ''readyTime''), s)
      | Some ready \<Rightarrow>
          (case autoTime p of
             None \<Rightarrow> (Some (KeyError ''autoTime''), s)
           | Some auto \<Rightarrow>
               (case extraction_get_or_create rid (ldap_time_2_datetime api ready)
                       (ldap_time_2_datetime api auto) (db s) of
                  Inl err \<Rightarrow> (Some err, s)
                | Inr (e, d) \<Rightarrow>
                    let s1 = s\<lparr>db := d,
                               last_extraction_started :=
                                 (last_extraction_started s)(Builtin_id \<mapsto> Some e)\<rparr>
                    in
                    (case oreVolumeByType p of
                       None \<Rightarrow> (Some (KeyError ''oreVolumeByType''), s1)
                     | Some ores \<Rightarrow> add_products api e ores s1))))"

text \<open>
  \<open>extraction.delete()\<close>: the row and, by cascade, its products.  It sets the primary
  key of the object to \<open>None\<close>, and asserts before that it is not \<open>None\<close>.
\<close>

definition delete_extraction :: "nat \<Rightarrow> database \<Rightarrow> database" where
  "delete_extraction e d =
     d\<lparr>extractions := filter (\<lambda>x. pk x \<noteq> e) (extractions d),
       extraction_products := filter (\<lambda>p. extraction_pk p \<noteq> e) (extraction_products d)\<rparr>"

text \<open>Lines 294 to 297.\<close>

definition extraction_cancelled :: "int \<Rightarrow> loop_state \<Rightarrow> outcome" where
  "extraction_cancelled structure_id s =
     (case last_extraction_started s (Structure_id structure_id) of
        None \<Rightarrow> (None, s)
      | Some None \<Rightarrow> (Some AssertionError, s)
      | Some (Some e) \<Rightarrow>
          (None, s\<lparr>db := delete_extraction e (db s),
                   last_extraction_started :=
                     (last_extraction_started s)(Structure_id structure_id \<mapsto> None)\<rparr>))"

text \<open>Lines 299 to 301.\<close>

definition extraction_finished :: "int \<Rightarrow> loop_state \<Rightarrow> outcome" where
  "extraction_finished structure_id s =
     (None, s\<lparr>last_extraction_started :=
                 (last_extraction_started s)(Structure_id structure_id := None)\<rparr>)"

text \<open>
  Lines 269 to 301: the three blocks for the started, cancelled and finished events.
  \<open>continue\<close> in the first block ends the iteration.
\<close>

definition apply_event ::
  "esi \<Rightarrow> notification \<Rightarrow> parsed_text \<Rightarrow> int \<Rightarrow> int option \<Rightarrow> loop_state \<Rightarrow> outcome" where
  "apply_event api n p structure_id refinery s1 =
     (if ntype n = ''MoonminingExtractionStarted'' \<and> refinery = None
      then (None, s1)
      else
        and_then
          (and_then
             (if ntype n = ''MoonminingExtractionStarted''
              then extraction_started api p (the refinery) s1
              else (None, s1))
             (\<lambda>s2.
                if ntype n = ''MoonminingExtractionCancelled''
                then extraction_cancelled structure_id s2
                else (None, s2)))
          (\<lambda>s3.
             if ntype n = ''MoonminingExtractionFinished''
             then extraction_finished structure_id s3
             else (None, s3)))"

text \<open>Lines 245 to 301: the body of the loop for one notification.\<close>

definition process_notification :: "esi \<Rightarrow> notification \<Rightarrow> loop_state \<Rightarrow> outcome" where
  "process_notification api n s =
     (case ntext n of
        Invalid_yaml \<Rightarrow> (Some YAMLError, s)
      | Not_a_mapping \<Rightarrow>
          if ntype n \<notin> set relevant_types then (None, s) else (Some TypeError, s)
      | Mapping p \<Rightarrow>
          if ntype n \<notin> set relevant_types then (None, s)
          else
            (case structureID p of
               None \<Rightarrow> (Some (KeyError ''structureID''), s)
             | Some structure_id \<Rightarrow>
                 let refinery = get_refinery (db s) structure_id in
                 and_then (update_refinery_moon api p refinery s)
                   (apply_event api n p structure_id refinery)))"

text \<open>The \<open>for\<close> loop over a list of notifications, in the order of the list.\<close>

fun process_notifications :: "esi \<Rightarrow> notification list \<Rightarrow> loop_state \<Rightarrow> outcome" where
  "process_notifications api [] s = (None, s)"
| "process_notifications api (n # ns) s =
     and_then (process_notification api n s) (process_notifications api ns)"

text \<open>\<open>sorted(notifications, key=lambda k: k["timestamp"])\<close>\<close>

definition sorted_notifications :: "notification list \<Rightarrow> notification list" where
  "sorted_notifications notifications = sort_key timestamp notifications"

text \<open>Lines 242 to 301 of \<open>run_refineries_update\<close>.\<close>

definition initial_state :: "database \<Rightarrow> loop_state" where
  "initial_state d = \<lparr>db = d, last_extraction_started = Map.empty, moon_updated = False\<rparr>"

definition process_extraction_events :: "esi \<Rightarrow> notification list \<Rightarrow> database \<Rightarrow> outcome" where
  "process_extraction_events api notifications d =
     process_notifications api (sorted_notifications notifications) (initial_state d)"

subsection \<open>Notions used in the statements\<close>

text \<open>
  A relevant notification whose structure is a stored refinery: the notifications for
  which line 259 finds a refinery.
\<close>

definition matches_known_refinery :: "database \<Rightarrow> notification \<Rightarrow> bool" where
  "matches_known_refinery d n =
     (case ntext n of
        Invalid_yaml \<Rightarrow> False
      | Not_a_mapping \<Rightarrow> False
      | Mapping p \<Rightarrow>
          ntype n \<in> set relevant_types \<and>
          (case structureID p of None \<Rightarrow> False | Some sid \<Rightarrow> get_refinery d sid \<noteq> None))"

definition structure_of :: "notification \<Rightarrow> int option" where
  "structure_of n =
     (case ntext n of
        Invalid_yaml \<Rightarrow> None
      | Not_a_mapping \<Rightarrow> None
      | Mapping p \<Rightarrow> structureID p)"

text \<open>Two states with the same moon of every refinery and the same flag.\<close>

definition same_moons :: "loop_state \<Rightarrow> loop_state \<Rightarrow> bool" where
  "same_moons s t \<longleftrightarrow> refineries (db t) = refineries (db s) \<and> moon_updated t = moon_updated s"

text \<open>No structure id is a key of \<open>last_extraction_started\<close>.\<close>

definition no_structure_key :: "loop_state \<Rightarrow> bool" where
  "no_structure_key s \<longleftrightarrow> (\<forall>k. last_extraction_started s (Structure_id k) = None)"

subsection \<open>A concrete run\<close>

text \<open>
  Every id is known, and the times are those of whole seconds, as the times of the
  notifications below are.
\<close>

definition api_all :: esi where
  "api_all =
     \<lparr>eve_moon_known = (\<lambda>_. True), eve_type_known = (\<lambda>_. True),
      ldap_time_2_datetime = (\<lambda>t. (t div 10000000 - 11644473600) * 1000000)\<rparr>"

text \<open>Two refineries, the first without a moon, and no extraction.\<close>

definition two_refineries :: database where
  "two_refineries =
     \<lparr>refineries = [1000000000001 \<mapsto> None, 1000000000002 \<mapsto> Some 40161709],
      moons = {40161709}, extractions = [], extraction_products = [], next_pk = 1\<rparr>"

definition started_1 :: notification where
  "started_1 =
     \<lparr>timestamp = 100, ntype = ''MoonminingExtractionStarted'',
      ntext = Mapping \<lparr>structureID = Some 1000000000001, moonID = Some 40161708,
                        readyTime = Some 132629040000000000, autoTime = Some 132629148000000000,
                        oreVolumeByType = Some [(45506, 1288475)]\<rparr>\<rparr>"

definition cancelled_1 :: notification where
  "cancelled_1 =
     \<lparr>timestamp = 200, ntype = ''MoonminingExtractionCancelled'',
      ntext = Mapping \<lparr>structureID = Some 1000000000001, moonID = Some 40161708,
                        readyTime = None, autoTime = None, oreVolumeByType = None\<rparr>\<rparr>"

text \<open>A later notification of the second refinery, naming another moon than the stored one.\<close>

definition fired_2 :: notification where
  "fired_2 =
     \<lparr>timestamp = 300, ntype = ''MoonminingLaserFired'',
      ntext = Mapping \<lparr>structureID = Some 1000000000002, moonID = Some 40161710,
                        readyTime = None, autoTime = None, oreVolumeByType = None\<rparr>\<rparr>"


section \<open>Moon surveys: moonplanner/tasks.py and moonmining/managers.py\<close>

subsection \<open>Strings and lists of Python\<close>

definition LF :: char where "LF = CHR 0x0A"
definition CR :: char where "CR = CHR 0x0D"
definition TAB :: char where "TAB = CHR 0x09"

text \<open>\<open>s.split(sep)\<close> for a separator of one character.\<close>

fun split_on :: "char \<Rightarrow> string \<Rightarrow> string list" where
  "split_on c [] = [[]]"
| "split_on c (x # xs) =
     (if x = c then [] # split_on c xs
      else (case split_on c xs of [] \<Rightarrow> [[x]] | w # ws \<Rightarrow> (x # w) # ws))"

text \<open>\<open>s.strip(c)\<close> for one character.\<close>

definition strip :: "char \<Rightarrow> string \<Rightarrow> string" where
  "strip c s = rev (dropWhile (\<lambda>x. x = c) (rev (dropWhile (\<lambda>x. x = c) s)))"

text \<open>\<open>xs[i]\<close> for \<open>i \<ge> 0\<close>, and \<open>xs.index(x)\<close>.\<close>

definition py_nth :: "'a list \<Rightarrow> nat \<Rightarrow> error + 'a" where
  "py_nth xs i = (if i < length xs then Inr (xs ! i) else Inl IndexError)"

fun py_index :: "'a list \<Rightarrow> 'a \<Rightarrow> error + nat" where
  "py_index [] x = Inl ValueError"
| "py_index (y # ys) x =
     (if y = x then Inr 0
      else (case py_index ys x of Inl e \<Rightarrow> Inl e | Inr i \<Rightarrow> Inr (Suc i)))"

text \<open>\<open>xs[a:b]\<close> for \<open>a, b \<ge> 0\<close>; it is empty when \<open>b \<le> a\<close>.\<close>

definition slice :: "'a list \<Rightarrow> nat \<Rightarrow> nat \<Rightarrow> 'a list" where
  "slice xs a b = take (b - a) (drop a xs)"

subsection \<open>Parsing the input\<close>

text \<open>
  A line is the list of its cells, a survey is the list of its lines.  The code of
  \<open>_parse_scans\<close> (managers.py, lines 104 to 134) and of the first part of
  \<open>process_survey_input\<close> (tasks.py, lines 54 to 85) is the same, statement by
  statement.
\<close>

type_synonym line = "string list"
type_synonym survey = "line list"

text \<open>Lines 104 to 109 (54 to 59).\<close>

definition split_lines :: "string \<Rightarrow> line list" where
  "split_lines scans = map (\<lambda>l. split_on TAB (strip CR l)) (split_on LF scans)"

text \<open>Lines 112 and 113 (62 and 63).\<close>

definition drop_header :: "line list \<Rightarrow> error + line list" where
  "drop_header lines =
     (case lines of
        [] \<Rightarrow> Inl IndexError
      | first # rest \<Rightarrow>
          (case first of
             [] \<Rightarrow> Inr rest
           | cell # _ \<Rightarrow> if cell = ''Moon'' then Inr rest else Inr lines))"

text \<open>Lines 114 to 120 (64 to 70): the indexes of the lines that start a survey.\<close>

fun find_sublists :: "line list \<Rightarrow> line list \<Rightarrow> error + nat list" where
  "find_sublists lines [] = Inr []"
| "find_sublists lines (l # rest) =
     (case l of
        [] \<Rightarrow> Inl IndexError
      | cell # _ \<Rightarrow>
          if cell = '''' then find_sublists lines rest
          else
            (case py_index lines l of
               Inl e \<Rightarrow> Inl e
             | Inr i \<Rightarrow>
                 (case find_sublists lines rest of
                    Inl e \<Rightarrow> Inl e
                  | Inr sublists \<Rightarrow> Inr (i # sublists))))"

text \<open>Lines 123 to 134 (73 to 85).\<close>

fun separate_surveys :: "line list \<Rightarrow> nat list \<Rightarrow> survey list" where
  "separate_surveys lines [] = []"
| "separate_surveys lines [i] = [drop i lines]"
| "separate_surveys lines (i # j # rest) = slice lines i j # separate_surveys lines (j # rest)"

definition parse_surveys :: "string \<Rightarrow> error + survey list" where
  "parse_surveys scans =
     (case drop_header (split_lines scans) of
        Inl e \<Rightarrow> Inl e
      | Inr lines \<Rightarrow>
          (case find_sublists lines lines of
             Inl e \<Rightarrow> Inl e
           | Inr sublists \<Rightarrow> Inr (separate_surveys lines sublists)))"

text \<open>\<open>_parse_scans\<close>: the surveys and the name of the exception (\<open>""\<close> for none).\<close>

definition parse_scans :: "string \<Rightarrow> survey list \<times> error option" where
  "parse_scans scans =
     (case parse_surveys scans of Inl e \<Rightarrow> ([], Some e) | Inr surveys \<Rightarrow> (surveys, None))"

subsection \<open>The stored moons and what lies outside the sources\<close>

text \<open>
  A product of a moon: the amount and the id of the type, as the cells of the survey give
  them.  The stored moons (\<open>Moon\<close>) with their products (\<open>MoonProduct\<close>), by the id of
  the moon.
\<close>

type_synonym product = "string \<times> string"
type_synonym survey_db = "string \<rightharpoonup> product list"

text \<open>
  What the functions call outside the sources, by whether the call returns or raises:
  \<open>EveMoon.objects.get_or_create_esi\<close>, \<open>EveType.objects.get_or_create_esi\<close>,
  \<open>EveOreType.objects.get_or_create_esi\<close>, the conversion of an amount when a product
  is written, \<open>Moon.update_income_estimate\<close>, \<open>Moon.update_calculated_properties\<close>, and
  \<open>User.objects.get\<close>.
\<close>

record survey_env =
  eve_moon_ok :: "string \<Rightarrow> bool"
  eve_type_ok :: "string \<Rightarrow> bool"
  ore_type_ok :: "string \<Rightarrow> bool"
  amount_ok :: "string \<Rightarrow> bool"
  update_income_estimate_ok :: "string \<Rightarrow> bool"
  update_calculated_properties_ok :: "string \<Rightarrow> bool"
  user_exists :: "nat \<Rightarrow> bool"

text \<open>The result of one survey (\<open>SurveyProcessResult\<close>, and the dictionary of tasks.py).\<close>

record process_result =
  r_moon_name :: "string option"
  r_success :: bool
  r_error_name :: "error option"

text \<open>The products of a moon; a moon that is not stored has none.\<close>

definition products_of :: "survey_db \<Rightarrow> string \<Rightarrow> product list" where
  "products_of d m = (case d m of None \<Rightarrow> [] | Some ps \<Rightarrow> ps)"

text \<open>\<open>Moon.objects.get_or_create(eve_moon=eve_moon)\<close>\<close>

definition moon_get_or_create :: "string \<Rightarrow> survey_db \<Rightarrow> survey_db" where
  "moon_get_or_create m d = (case d m of None \<Rightarrow> d(m \<mapsto> []) | Some ps \<Rightarrow> d)"

text \<open>\<open>survey[i][j]\<close>\<close>

definition cell_at :: "survey \<Rightarrow> nat \<Rightarrow> nat \<Rightarrow> error + string" where
  "cell_at s i j = (case py_nth s i of Inl e \<Rightarrow> Inl e | Inr l \<Rightarrow> py_nth l j)"

subsection \<open>tasks.py: \<open>process_survey_input\<close>\<close>

text \<open>
  Lines 107 to 116: the products of the lines after the first, each created when its line
  is read.
\<close>

fun create_products :: "survey_env \<Rightarrow> string \<Rightarrow> line list \<Rightarrow> survey_db \<Rightarrow> error + survey_db" where
  "create_products env m [] d = Inr d"
| "create_products env m (row # rest) d =
     (let product_data = drop 1 row in
      case py_nth product_data 2 of
        Inl e \<Rightarrow> Inl e
      | Inr type_id \<Rightarrow>
          if \<not> eve_type_ok env type_id then Inl EsiError
          else
            (case py_nth product_data 1 of
               Inl e \<Rightarrow> Inl e
             | Inr amount \<Rightarrow>
                 if \<not> amount_ok env amount then Inl ValueError
                 else create_products env m rest (d(m \<mapsto> products_of d m @ [(amount, type_id)]))))"

text \<open>
  Lines 102 to 117: the statements of the transaction after the name of the moon was
  read, on the state of the transaction.
\<close>

definition survey_statements :: "survey_env \<Rightarrow> survey \<Rightarrow> survey_db \<Rightarrow> error + survey_db" where
  "survey_statements env s d =
     (case cell_at s 1 6 of
        Inl e \<Rightarrow> Inl e
      | Inr moon_id \<Rightarrow>
          if \<not> eve_moon_ok env moon_id then Inl EsiError
          else
            (case create_products env moon_id (drop 1 s) ((moon_get_or_create moon_id d)(moon_id \<mapsto> [])) of
               Inl e \<Rightarrow> Inl e
             | Inr d1 \<Rightarrow>
                 if \<not> update_income_estimate_ok env moon_id then Inl DatabaseError
                 else Inr d1))"

text \<open>
  Lines 99 to 134: one iteration of the loop over the surveys.  \<open>transaction.atomic()\<close>
  encloses the whole \<open>try\<close> block: an exception leaves the database as it was.  The
  variable \<open>moon_name\<close> lives across the iterations.
\<close>

definition process_survey ::
  "survey_env \<Rightarrow> survey \<Rightarrow> string option \<times> survey_db \<Rightarrow> process_result \<times> string option \<times> survey_db" where
  "process_survey env s st =
     (case st of (moon_name, d) \<Rightarrow>
        (case cell_at s 0 0 of
           Inl e \<Rightarrow>
             (\<lparr>r_moon_name = moon_name, r_success = False, r_error_name = Some e\<rparr>, moon_name, d)
         | Inr name \<Rightarrow>
             (case survey_statements env s d of
                Inl e \<Rightarrow>
                  (\<lparr>r_moon_name = Some name, r_success = False, r_error_name = Some e\<rparr>,
                   Some name, d)
              | Inr d1 \<Rightarrow>
                  (\<lparr>r_moon_name = Some name, r_success = True, r_error_name = None\<rparr>,
                   Some name, d1))))"

text \<open>
  Lines 95 to 134: the loop.  It returns the results, the value of the variable
  \<open>success\<close> after the loop, and the database.
\<close>

fun process_survey_loop ::
  "survey_env \<Rightarrow> survey list \<Rightarrow> bool \<Rightarrow> string option \<times> survey_db \<Rightarrow>
     process_result list \<times> bool \<times> survey_db" where
  "process_survey_loop env [] success st = ([], success, snd st)"
| "process_survey_loop env (s # rest) success st =
     (case process_survey env s st of
        (r, moon_name, d) \<Rightarrow>
          (case process_survey_loop env rest (r_success r) (moon_name, d) of
             (rs, success1, d1) \<Rightarrow> (r # rs, success1, d1)))"

text \<open>
  Lines 139 to 151 (and 205 to 217 of managers.py): \<open>success\<close> after the loop over the
  results of the report.
\<close>

fun report_success :: "process_result list \<Rightarrow> bool \<Rightarrow> bool" where
  "report_success [] success = success"
| "report_success (r # rs) success =
     report_success rs (if r_success r then success else False)"

text \<open>
  Lines 45 to 164.  \<open>user_pk\<close> is \<open>None\<close> or the primary key; the report is sent when it
  is neither \<open>None\<close> nor 0, and \<open>User.objects.get\<close> raises for a user that is not
  stored.  The function returns \<open>success\<close>, or raises.
\<close>

definition process_survey_input ::
  "survey_env \<Rightarrow> string \<Rightarrow> nat option \<Rightarrow> survey_db \<Rightarrow> (error + bool) \<times> survey_db" where
  "process_survey_input env scans user_pk d =
     (case (case parse_surveys scans of
              Inl e \<Rightarrow> ([], False, d)
            | Inr surveys \<Rightarrow> process_survey_loop env surveys True (None, d)) of
        (process_results, success, d1) \<Rightarrow>
          if user_pk \<noteq> None \<and> user_pk \<noteq> Some 0
          then
            (let success1 = report_success process_results success in
             if user_exists env (the user_pk) then (Inr success1, d1)
             else (Inl DoesNotExist, d1))
          else (Inr success, d1))"

subsection \<open>managers.py: \<open>MoonManager.update_moons_from_survey\<close>\<close>

text \<open>Lines 160 to 172: the products of the lines after the first, kept in a list.\<close>

fun collect_products :: "survey_env \<Rightarrow> line list \<Rightarrow> error + product list" where
  "collect_products env [] = Inr []"
| "collect_products env (row # rest) =
     (let product_data = drop 1 row in
      case py_nth product_data 2 of
        Inl e \<Rightarrow> Inl e
      | Inr type_id \<Rightarrow>
          if \<not> ore_type_ok env type_id then Inl EsiError
          else
            (case py_nth product_data 1 of
               Inl e \<Rightarrow> Inl e
             | Inr amount \<Rightarrow>
                 (case collect_products env rest of
                    Inl e \<Rightarrow> Inl e
                  | Inr ps \<Rightarrow> Inr ((amount, type_id) # ps))))"

text \<open>
  Lines 174 to 176: the transaction that deletes the products of the moon and creates
  the new ones.  \<open>bulk_create\<close> raises for an amount that is no number, and the
  transaction then leaves the database as it was.
\<close>

definition replace_products :: "survey_env \<Rightarrow> string \<Rightarrow> product list \<Rightarrow> survey_db \<Rightarrow> error + survey_db" where
  "replace_products env m ps d =
     (if list_all (\<lambda>(amount, type_id). amount_ok env amount) ps then Inr (d(m \<mapsto> ps))
      else Inl ValueError)"

text \<open>
  Lines 152 to 197: one iteration of the loop of \<open>_process_surveys\<close>.  What was written
  before an exception stays written.
\<close>

definition process_survey_m :: "survey_env \<Rightarrow> survey \<Rightarrow> survey_db \<Rightarrow> process_result \<times> survey_db" where
  "process_survey_m env s d =
     (case cell_at s 0 0 of
        Inl e \<Rightarrow> (\<lparr>r_moon_name = Some '''', r_success = False, r_error_name = Some e\<rparr>, d)
      | Inr name \<Rightarrow>
          (let failed = (\<lambda>e d1. (\<lparr>r_moon_name = Some name, r_success = False,
                                    r_error_name = Some e\<rparr>, d1)) in
           case cell_at s 1 6 of
             Inl e \<Rightarrow> failed e d
           | Inr moon_id \<Rightarrow>
               if \<not> eve_moon_ok env moon_id then failed EsiError d
               else
                 (let d1 = moon_get_or_create moon_id d in
                  case collect_products env (drop 1 s) of
                    Inl e \<Rightarrow> failed e d1
                  | Inr moon_products \<Rightarrow>
                      (case replace_products env moon_id moon_products d1 of
                         Inl e \<Rightarrow> failed e d1
                       | Inr d2 \<Rightarrow>
                           if \<not> update_calculated_properties_ok env moon_id
                           then failed DatabaseError d2
                           else (\<lparr>r_moon_name = Some name, r_success = True,
                                  r_error_name = None\<rparr>, d2)))))"

text \<open>Lines 146 to 198: \<open>_process_surveys\<close>.\<close>

fun process_surveys ::
  "survey_env \<Rightarrow> survey list \<Rightarrow> bool \<Rightarrow> survey_db \<Rightarrow> process_result list \<times> bool \<times> survey_db" where
  "process_surveys env [] overall_success d = ([], overall_success, d)"
| "process_surveys env (s # rest) overall_success d =
     (case process_survey_m env s d of
        (r, d1) \<Rightarrow>
          (case process_surveys env rest (if r_success r then overall_success else False) d1 of
             (rs, overall_success1, d2) \<Rightarrow> (r # rs, overall_success1, d2)))"

text \<open>
  Lines 80 to 98.  \<open>user\<close> is \<open>None\<close> or the primary key of the user object.
\<close>

definition update_moons_from_survey ::
  "survey_env \<Rightarrow> string \<Rightarrow> nat option \<Rightarrow> survey_db \<Rightarrow> bool \<times> survey_db" where
  "update_moons_from_survey env scans user d =
     (case parse_scans scans of
        (surveys, error_name) \<Rightarrow>
          (case (if surveys \<noteq> [] then process_surveys env surveys True d else ([], False, d)) of
             (process_results, success, d1) \<Rightarrow>
               if user \<noteq> None then (report_success process_results success, d1)
               else (success, d1)))"

subsection \<open>Concrete inputs\<close>

definition env_ok :: survey_env where
  "env_ok =
     \<lparr>eve_moon_ok = (\<lambda>_. True), eve_type_ok = (\<lambda>_. True), ore_type_ok = (\<lambda>_. True),
      amount_ok = (\<lambda>_. True), update_income_estimate_ok = (\<lambda>_. True),
      update_calculated_properties_ok = (\<lambda>_. True), user_exists = (\<lambda>_. True)\<rparr>"

text \<open>The same, with \<open>update_calculated_properties\<close> raising.\<close>

definition env_update_fails :: survey_env where
  "env_update_fails = env_ok\<lparr>update_calculated_properties_ok := (\<lambda>_. False)\<rparr>"

text \<open>A survey of the moon 40161708 with one product: 0.3 of the type 45506.\<close>

definition survey_good :: survey where
  "survey_good =
     [[''Auga V - Moon 1''],
      ['''', ''Cinnabar'', ''0.3'', ''45506'', ''30002542'', ''40161707'', ''40161708'']]"

text \<open>A survey that has its first line only.\<close>

definition survey_short :: survey where
  "survey_short = [[''Auga V - Moon 2'']]"

text \<open>The text of the short survey followed by the good one.\<close>

definition scans_short_good :: string where
  "scans_short_good =
     ''Auga V - Moon 2'' @ [LF] @ ''Auga V - Moon 1'' @ [LF] @
     [TAB] @ ''Cinnabar'' @ [TAB] @ ''0.3'' @ [TAB] @ ''45506'' @ [TAB] @ ''30002542'' @ [TAB]
       @ ''40161707'' @ [TAB] @ ''40161708''"

text \<open>The moon 40161708 stored with one product.\<close>

definition db_one_moon :: survey_db where
  "db_one_moon = [''40161708'' \<mapsto> [(''0.5'', ''45490'')]]"

text \<open>An environment in which no amount can be written.\<close>

definition env_bad_amount :: survey_env where
  "env_bad_amount = env_ok\<lparr>amount_ok := (\<lambda>_. False)\<rparr>"

subsection \<open>Notions used in the statements about a survey\<close>

text \<open>
  The id of the moon of a survey, and the products that its lines after the first give:
  the amount is the third cell of a line, the id of the type the fourth.
\<close>

definition moon_id_of :: "survey \<Rightarrow> string" where
  "moon_id_of s = s ! 1 ! 6"

definition product_of_row :: "line \<Rightarrow> product" where
  "product_of_row row = (row ! 2, row ! 3)"

definition survey_products :: "survey \<Rightarrow> product list" where
  "survey_products s = map product_of_row (drop 1 s)"

text \<open>
  The survey has the cells that are read for the name and the id of the moon, and the
  moon is found.
\<close>

definition survey_cells_ok :: "survey_env \<Rightarrow> survey \<Rightarrow> bool" where
  "survey_cells_ok env s \<longleftrightarrow>
     2 \<le> length s \<and> 1 \<le> length (s ! 0) \<and> 7 \<le> length (s ! 1)
     \<and> eve_moon_ok env (moon_id_of s)"

text \<open>
  Every line after the first has its four cells and a type that is found: for tasks.py,
  with an amount that can be written as well; for managers.py the amounts are written
  later, in the transaction.
\<close>

definition rows_ok_task :: "survey_env \<Rightarrow> survey \<Rightarrow> bool" where
  "rows_ok_task env s \<longleftrightarrow>
     list_all (\<lambda>row. 4 \<le> length row \<and> eve_type_ok env (row ! 3) \<and> amount_ok env (row ! 2))
       (drop 1 s)"

definition rows_ok_manager :: "survey_env \<Rightarrow> survey \<Rightarrow> bool" where
  "rows_ok_manager env s \<longleftrightarrow>
     list_all (\<lambda>row. 4 \<le> length row \<and> ore_type_ok env (row ! 3)) (drop 1 s)"

definition amounts_ok :: "survey_env \<Rightarrow> survey \<Rightarrow> bool" where
  "amounts_ok env s \<longleftrightarrow> list_all (\<lambda>row. amount_ok env (row ! 2)) (drop 1 s)"

section \<open>moonmining/views.py\<close>

subsection \<open>Requests, users and responses\<close>

text \<open>
  The requesting user: whether it is logged in, and \<open>has_perm\<close>.
\<close>

record user =
  is_authenticated :: bool
  has_perm :: "string \<Rightarrow> bool"

text \<open>
  An extraction as the view reads it, with the fields of its refinery: the primary key of
  the moon of the refinery (\<open>None\<close> for a refinery without a moon) and the names of the
  owner.  Times are integers (microseconds).
\<close>

record view_extraction =
  e_pk :: nat
  e_ready_time :: int
  e_moon :: "nat option"
  e_corporation_name :: string
  e_alliance_name :: string
  e_volume :: "rat option"
  e_value :: "rat option"
  e_is_jackpot :: "bool option"

text \<open>A row of the answer (the fields that are markup are left out).\<close>

record extraction_row =
  row_id :: nat
  row_ready_time :: int
  row_corporation_name :: string
  row_alliance_name :: string
  row_volume :: "rat option"
  row_value :: "rat option"
  row_details :: nat
  row_is_ready :: bool

text \<open>
  The responses of the views: the redirect to the login page (302) that the decorators
  \<open>login_required\<close> and \<open>permission_required\<close> answer with,
  \<open>HttpResponseNotFound\<close> (404), \<open>HttpResponseUnauthorized\<close> (401), a
  rendered page (200), and \<open>JsonResponse\<close> with the rows of the extractions (200).
  \<open>Raises\<close> stands for an exception that leaves the view; the framework answers it
  with the status 500.
\<close>

datatype response =
    RedirectToLogin
  | HttpResponseNotFound
  | HttpResponseUnauthorized
  | Rendered string
  | JsonResponse "extraction_row list"
  | Raises error

fun status_code :: "response \<Rightarrow> nat" where
  "status_code RedirectToLogin = 302"
| "status_code HttpResponseNotFound = 404"
| "status_code HttpResponseUnauthorized = 401"
| "status_code (Rendered template) = 200"
| "status_code (JsonResponse data) = 200"
| "status_code (Raises e) = 500"

text \<open>
  \<open>@login_required\<close>: the view runs for a logged-in user only.
  \<open>@permission_required(perms)\<close>: the view runs only for a user with all of
  \<open>perms\<close>; without \<open>raise_exception\<close> the others are sent to the login page.
\<close>

definition login_required :: "(user \<Rightarrow> response) \<Rightarrow> user \<Rightarrow> response" where
  "login_required view u = (if is_authenticated u then view u else RedirectToLogin)"

definition permission_required :: "string list \<Rightarrow> (user \<Rightarrow> response) \<Rightarrow> user \<Rightarrow> response" where
  "permission_required perms view u =
     (if list_all (has_perm u) perms then view u else RedirectToLogin)"

definition default_if_none :: "'a option \<Rightarrow> 'a \<Rightarrow> 'a" where
  "default_if_none v dflt = (case v of None \<Rightarrow> dflt | Some x \<Rightarrow> x)"

subsection \<open>\<open>moon_details\<close>\<close>

text \<open>
  Lines 141 to 213, for the stored moons \<open>moon_pks\<close>: the lookup of the moon, the check
  of the permissions, and the page.
\<close>

definition moon_details_body :: "nat set \<Rightarrow> nat \<Rightarrow> user \<Rightarrow> response" where
  "moon_details_body moon_pks moon_pk u =
     (if moon_pk \<notin> moon_pks then HttpResponseNotFound
      else if \<not> has_perm u ''moonmining.view_all_moons''
              \<and> \<not> has_perm u ''moonmining.extractions_access''
      then HttpResponseUnauthorized
      else Rendered ''moonmining/moon_details.html'')"

text \<open>Lines 138 to 213: the view with its decorators.\<close>

definition moon_details :: "nat set \<Rightarrow> user \<Rightarrow> nat \<Rightarrow> response" where
  "moon_details moon_pks u moon_pk =
     login_required
       (permission_required [''moonmining.basic_access''] (moon_details_body moon_pks moon_pk)) u"

text \<open>A user who is logged in and holds exactly the permissions of the list.\<close>

definition user_with :: "string list \<Rightarrow> user" where
  "user_with perms = \<lparr>is_authenticated = True, has_perm = (\<lambda>p. p \<in> set perms)\<rparr>"

subsection \<open>\<open>extractions_data\<close>\<close>

text \<open>
  \<open>moon_details_button_html(moon)\<close> reads \<open>moon.pk\<close> for the link: the primary key,
  and an \<open>AttributeError\<close> for \<open>None\<close>.
\<close>

definition moon_details_button_html :: "nat option \<Rightarrow> error + nat" where
  "moon_details_button_html moon =
     (case moon of None \<Rightarrow> Inl AttributeError | Some moon_pk \<Rightarrow> Inr moon_pk)"

text \<open>\<open>now() - dt.timedelta(hours=MOONMINING_EXTRACTIONS_HOURS_UNTIL_STALE)\<close>\<close>

definition cutover_dt :: "int \<Rightarrow> int \<Rightarrow> int" where
  "cutover_dt now hours_until_stale = now - hours_until_stale * 3600 * 1000000"

text \<open>Lines 101 to 106: the extractions of the category.\<close>

definition extractions_of_category ::
  "int \<Rightarrow> int \<Rightarrow> string \<Rightarrow> view_extraction list \<Rightarrow> view_extraction list" where
  "extractions_of_category now hours_until_stale category all_extractions =
     (if category = ''past''
      then filter (\<lambda>e. e_ready_time e < cutover_dt now hours_until_stale) all_extractions
      else if category = ''upcoming''
      then filter (\<lambda>e. e_ready_time e \<ge> cutover_dt now hours_until_stale) all_extractions
      else [])"

text \<open>Lines 108 to 134: the row of one extraction.\<close>

definition extraction_data_row :: "int \<Rightarrow> view_extraction \<Rightarrow> error + extraction_row" where
  "extraction_data_row now e =
     (case moon_details_button_html (e_moon e) of
        Inl err \<Rightarrow> Inl err
      | Inr details \<Rightarrow>
          Inr \<lparr>row_id = e_pk e,
               row_ready_time = e_ready_time e,
               row_corporation_name = e_corporation_name e,
               row_alliance_name = e_alliance_name e,
               row_volume = e_volume e,
               row_value = (if e_value e = None \<or> e_value e = Some 0 then None else e_value e),
               row_details = details,
               row_is_ready = (e_ready_time e \<le> now)\<rparr>)"

text \<open>Lines 107 to 134: the loop that collects the rows; an exception ends it.\<close>

fun extraction_data_rows :: "int \<Rightarrow> view_extraction list \<Rightarrow> error + extraction_row list" where
  "extraction_data_rows now [] = Inr []"
| "extraction_data_rows now (e # es) =
     (case extraction_data_row now e of
        Inl err \<Rightarrow> Inl err
      | Inr row \<Rightarrow>
          (case extraction_data_rows now es of
             Inl err \<Rightarrow> Inl err
           | Inr rows \<Rightarrow> Inr (row # rows)))"

text \<open>
  Lines 92 to 135: the body of the function, at the time \<open>now\<close> (the two calls of
  \<open>now()\<close> taken at the same time).
\<close>

definition extractions_data_body ::
  "int \<Rightarrow> int \<Rightarrow> view_extraction list \<Rightarrow> string \<Rightarrow> error + extraction_row list" where
  "extractions_data_body now hours_until_stale all_extractions category =
     extraction_data_rows now
       (extractions_of_category now hours_until_stale category all_extractions)"

text \<open>
  Lines 89 to 135: the view with its decorators.  \<open>hours_until_stale\<close> is the setting
  \<open>MOONMINING_EXTRACTIONS_HOURS_UNTIL_STALE\<close>.
\<close>

definition extractions_data ::
  "user \<Rightarrow> int \<Rightarrow> int \<Rightarrow> view_extraction list \<Rightarrow> string \<Rightarrow> response" where
  "extractions_data u now hours_until_stale all_extractions category =
     login_required
       (permission_required [''moonmining.extractions_access'', ''moonmining.basic_access'']
          (\<lambda>u. case extractions_data_body now hours_until_stale all_extractions category of
                  Inl e \<Rightarrow> Raises e
                | Inr data \<Rightarrow> JsonResponse data)) u"

text \<open>
  The row that the statements expect for an extraction whose refinery has a moon.
\<close>

definition expected_row :: "int \<Rightarrow> view_extraction \<Rightarrow> extraction_row" where
  "expected_row now e =
     \<lparr>row_id = e_pk e,
      row_ready_time = e_ready_time e,
      row_corporation_name = e_corporation_name e,
      row_alliance_name = e_alliance_name e,
      row_volume = e_volume e,
      row_value = (if e_value e = None \<or> e_value e = Some 0 then None else e_value e),
      row_details = the (e_moon e),
      row_is_ready = (e_ready_time e \<le> now)\<rparr>"

subsection \<open>\<open>report_owned_value_data\<close>\<close>

text \<open>
  A moon as the report reads it: \<open>refinery_owner\<close> is the name of the owner of the
  refinery of the moon, \<open>None\<close> for a moon without a refinery.
\<close>

record moon =
  m_pk :: nat
  moon_name :: string
  region_name :: string
  moon_value :: "rat option"
  refinery_owner :: "string option"

text \<open>A row of the report; \<open>corporation\<close> is the name and the number of moons of the label.\<close>

record report_row =
  corporation :: "string \<times> nat"
  moon_display :: string
  moon_sort :: nat
  region :: "string option"
  row_moon_value :: "rat option"
  rank :: "nat option"
  total :: "rat option"
  is_total :: bool
  grand_total_percent :: "rat option"

text \<open>
  Python's \<open>/\<close> raises for a zero divisor.  The values are rationals here; the code
  computes in binary floating point, so its quotients are those of this model up to
  rounding.
\<close>

definition py_div :: "rat \<Rightarrow> rat \<Rightarrow> error + rat" where
  "py_div a b = (if b = 0 then Inl ZeroDivisionError else Inr (a / b))"

text \<open>\<open>.filter(refinery__isnull=False)\<close>\<close>

definition moon_query :: "moon list \<Rightarrow> moon list" where
  "moon_query all_moons = filter (\<lambda>m. refinery_owner m \<noteq> None) all_moons"

text \<open>
  Lines 379 to 383: \<open>corporation_moons\<close>, a dictionary in the order in which its keys
  were inserted, as the list of its items (name, moons, total).
\<close>

fun corporation_add ::
  "string \<Rightarrow> moon \<Rightarrow> (string \<times> moon list \<times> rat) list \<Rightarrow> (string \<times> moon list \<times> rat) list" where
  "corporation_add c m [] = [(c, [m], 0 + default_if_none (moon_value m) 0)]"
| "corporation_add c m ((k, ms, t) # rest) =
     (if k = c then (k, ms @ [m], t + default_if_none (moon_value m) 0) # rest
      else (k, ms, t) # corporation_add c m rest)"

definition corporation_moons :: "moon list \<Rightarrow> (string \<times> moon list \<times> rat) list" where
  "corporation_moons all_moons =
     foldl (\<lambda>acc m. corporation_add (the (refinery_owner m)) m acc) []
       (sort_key moon_name (moon_query all_moons))"

text \<open>
  Lines 385 to 392: the rank of the moons with a value, by descending value.
\<close>

definition moon_ranks :: "moon list \<Rightarrow> (nat \<rightharpoonup> nat)" where
  "moon_ranks all_moons =
     (let pks = map m_pk
                  (sort_key (\<lambda>m. - the (moon_value m))
                     (filter (\<lambda>m. moon_value m \<noteq> None) (moon_query all_moons)))
      in map_of (rev (zip pks [0 ..< length pks])))"

text \<open>Lines 393 to 395.\<close>

definition grand_total :: "moon list \<Rightarrow> rat" where
  "grand_total all_moons = sum_list (map (\<lambda>(c, ms, t). t) (corporation_moons all_moons))"

text \<open>Lines 401 to 405: the conditional expression.\<close>

definition percent_of_grand_total :: "rat \<Rightarrow> moon \<Rightarrow> error + rat option" where
  "percent_of_grand_total gt m =
     (if gt > 0
      then (case py_div (default_if_none (moon_value m) 0) gt of
              Inl err \<Rightarrow> Inl err
            | Inr q \<Rightarrow> Inr (Some (q * 100)))
      else Inr None)"

text \<open>Lines 400 to 420: the rows of the moons of one corporation, counted from \<open>counter\<close>.\<close>

fun moon_rows ::
  "(nat \<rightharpoonup> nat) \<Rightarrow> rat \<Rightarrow> string \<times> nat \<Rightarrow> nat \<Rightarrow> moon list \<Rightarrow> error + report_row list" where
  "moon_rows ranks gt label counter [] = Inr []"
| "moon_rows ranks gt label counter (m # ms) =
     (case percent_of_grand_total gt m of
        Inl err \<Rightarrow> Inl err
      | Inr percent \<Rightarrow>
          (case moon_rows ranks gt label (counter + 1) ms of
             Inl err \<Rightarrow> Inl err
           | Inr rows \<Rightarrow>
               Inr (\<lparr>corporation = label, moon_display = moon_name m, moon_sort = counter,
                     region = Some (region_name m), row_moon_value = moon_value m,
                     rank = (case ranks (m_pk m) of None \<Rightarrow> None | Some r \<Rightarrow> Some (r + 1)),
                     total = None, is_total = False, grand_total_percent = percent\<rparr>
                    # rows)))"

text \<open>Lines 421 to 433: the row of the total of a corporation.\<close>

definition total_row :: "string \<times> nat \<Rightarrow> nat \<Rightarrow> rat \<Rightarrow> report_row" where
  "total_row label counter t =
     \<lparr>corporation = label, moon_display = ''TOTAL'', moon_sort = counter, region = None,
      row_moon_value = None, rank = None, total = Some t, is_total = True,
      grand_total_percent = None\<rparr>"

text \<open>Lines 397 to 433: the loop over the corporations.\<close>

fun corporation_rows ::
  "(nat \<rightharpoonup> nat) \<Rightarrow> rat \<Rightarrow> (string \<times> moon list \<times> rat) list \<Rightarrow> error + report_row list" where
  "corporation_rows ranks gt [] = Inr []"
| "corporation_rows ranks gt ((corporation_name, ms, t) # rest) =
     (case moon_rows ranks gt (corporation_name, length ms) 0 ms of
        Inl err \<Rightarrow> Inl err
      | Inr rows \<Rightarrow>
          (case corporation_rows ranks gt rest of
             Inl err \<Rightarrow> Inl err
           | Inr others \<Rightarrow>
               Inr (rows @ [total_row (corporation_name, length ms) (length ms) t] @ others)))"

text \<open>Lines 369 to 434: the function.\<close>

definition report_owned_value_data :: "moon list \<Rightarrow> error + report_row list" where
  "report_owned_value_data all_moons =
     corporation_rows (moon_ranks all_moons) (grand_total all_moons) (corporation_moons all_moons)"

text \<open>The values that the statements about the report refer to.\<close>

definition value_or_zero :: "moon \<Rightarrow> rat" where
  "value_or_zero m = default_if_none (moon_value m) 0"

definition expected_percent :: "rat \<Rightarrow> rat option \<Rightarrow> rat option" where
  "expected_percent gt v = (if gt > 0 then Some (default_if_none v 0 / gt * 100) else None)"

definition totals_ok :: "(string \<times> moon list \<times> rat) list \<Rightarrow> bool" where
  "totals_ok cs = list_all (\<lambda>(c, ms, t). t = sum_list (map value_or_zero ms)) cs"

text \<open>Four moons: two of one corporation, one of them without a value, one of another
  corporation, and one without a refinery.\<close>

definition moon_a :: moon where
  "moon_a = \<lparr>m_pk = 1, moon_name = ''Auga V - Moon 1'', region_name = ''Heimatar'',
              moon_value = Some 100, refinery_owner = Some ''Wayne Technologies''\<rparr>"

definition moon_b :: moon where
  "moon_b = \<lparr>m_pk = 2, moon_name = ''Auga V - Moon 2'', region_name = ''Heimatar'',
              moon_value = None, refinery_owner = Some ''Wayne Technologies''\<rparr>"

definition moon_c :: moon where
  "moon_c = \<lparr>m_pk = 3, moon_name = ''Abune I - Moon 1'', region_name = ''Everyshore'',
              moon_value = Some 300, refinery_owner = Some ''Queen Industries''\<rparr>"

definition moon_d :: moon where
  "moon_d = \<lparr>m_pk = 4, moon_name = ''Abune I - Moon 2'', region_name = ''Everyshore'',
              moon_value = Some 700, refinery_owner = None\<rparr>"

text \<open>
  Extractions read at the time \<open>example_now\<close>: one that became ready 24 hours
  before, one that became ready 6 hours before, one that becomes ready 24 hours later, and
  one of a refinery without a moon that became ready 24 hours before.
\<close>

definition example_now :: int where
  "example_now = 1618430400000000"

definition extraction_old :: view_extraction where
  "extraction_old =
     \<lparr>e_pk = 1, e_ready_time = 1618344000000000, e_moon = Some 40161708,
      e_corporation_name = ''Wayne Technologies'', e_alliance_name = ''Wayne Enterprises'',
      e_volume = Some 1288475, e_value = Some 0, e_is_jackpot = Some False\<rparr>"

definition extraction_recent :: view_extraction where
  "extraction_recent =
     \<lparr>e_pk = 3, e_ready_time = 1618408800000000, e_moon = Some 40161710,
      e_corporation_name = ''Wayne Technologies'', e_alliance_name = ''Wayne Enterprises'',
      e_volume = Some 544691, e_value = Some 250, e_is_jackpot = Some True\<rparr>"

definition extraction_new :: view_extraction where
  "extraction_new =
     \<lparr>e_pk = 2, e_ready_time = 1618516800000000, e_moon = Some 40161709,
      e_corporation_name = ''Wayne Technologies'', e_alliance_name = ''Wayne Enterprises'',
      e_volume = None, e_value = None, e_is_jackpot = None\<rparr>"

definition extraction_moonless :: view_extraction where
  "extraction_moonless =
     \<lparr>e_pk = 4, e_ready_time = 1618344000000000, e_moon = None,
      e_corporation_name = ''Wayne Technologies'', e_alliance_name = ''Wayne Enterprises'',
      e_volume = None, e_value = None, e_is_jackpot = None\<rparr>"

definition extractions_user :: user where
  "extractions_user = user_with [''moonmining.basic_access'', ''moonmining.extractions_access'']"

section \<open>moonmining/managers.py: \<open>update_calculated_properties\<close>\<close>

definition MAX_THREAD_WORKERS :: nat where
  "MAX_THREAD_WORKERS = 20"

text \<open>
  Lines 48 and 49: \<open>executor.map(self._thread_update_obj, list(obj_pks))\<close> submits one
  call of \<open>_thread_update_obj\<close> for every primary key to a
  \<open>ThreadPoolExecutor(max_workers=MAX_THREAD_WORKERS)\<close>, and the \<open>with\<close> block is left
  when all calls have returned.  The state of the executor: the primary keys whose call
  waits in the queue, those whose call a worker thread is running, and those whose call
  has returned.
\<close>

record executor =
  waiting :: "nat list"
  running :: "nat list"
  returned :: "nat list"

text \<open>
  A step of the executor: a worker thread takes the first waiting call while fewer than
  \<open>max_workers\<close> calls are running, or a running call returns.
\<close>

inductive executor_step :: "executor \<Rightarrow> executor \<Rightarrow> bool" where
  start:
    "waiting x = obj_pk # rest \<Longrightarrow> length (running x) < MAX_THREAD_WORKERS \<Longrightarrow>
     executor_step x (x\<lparr>waiting := rest, running := running x @ [obj_pk]\<rparr>)"
| return:
    "obj_pk \<in> set (running x) \<Longrightarrow>
     executor_step x
       (x\<lparr>running := remove1 obj_pk (running x), returned := returned x @ [obj_pk]\<rparr>)"

code_pred executor_step .

text \<open>The executor after \<open>executor.map\<close> has submitted the calls.\<close>

definition submitted :: "nat list \<Rightarrow> executor" where
  "submitted obj_pks = \<lparr>waiting = obj_pks, running = [], returned = []\<rparr>"

text \<open>The states that a run of \<open>update_calculated_properties\<close> goes through.\<close>

definition update_calculated_properties_reaches :: "nat list \<Rightarrow> executor \<Rightarrow> bool" where
  "update_calculated_properties_reaches obj_pks x \<longleftrightarrow>
     executor_step\<^sup>*\<^sup>* (submitted obj_pks) x"

section \<open>moonmining/models.py: updates from the external API\<close>

text \<open>
  The file models.py is not among the sources; its tests in tests/test_models.py are.
  What the external API answers: the list of the structures of the corporation, the
  details of a structure (its name), and the mining ledger of an observer; each call can
  raise.
\<close>

record esi_answers =
  corporation_structures :: "error + nat list"
  universe_structure :: "nat \<Rightarrow> error + string"
  mining_observer :: "nat \<Rightarrow> error + (nat \<times> nat) list"

text \<open>A stored refinery with the fields of its mining ledger.\<close>

record refinery_row =
  refinery_name :: string
  ledger_last_update_ok :: bool
  ledger_last_update_at :: "int option"
  mining_ledger :: "(nat \<times> nat) list"

type_synonym refinery_table = "nat \<rightharpoonup> refinery_row"

text \<open>
  Modelled from the spec: \<open>Owner.update_refineries_from_esi\<close> (models.py is missing),
  after section 7 of the specification and the tests of
  \<open>TestOwnerUpdateRefineries\<close>.  An error of the list of structures ends the job with
  the exception and nothing written; an error of the details of one structure is passed
  over and the job goes on with the other structures; the refineries that the list no
  longer has are removed.
\<close>

definition update_or_create_refinery :: "esi_answers \<Rightarrow> refinery_table \<Rightarrow> nat \<Rightarrow> refinery_table" where
  "update_or_create_refinery api t structure_id =
     (case universe_structure api structure_id of
        Inl e \<Rightarrow> t
      | Inr name \<Rightarrow>
          (case t structure_id of
             None \<Rightarrow>
               t(structure_id \<mapsto>
                   \<lparr>refinery_name = name, ledger_last_update_ok = False,
                    ledger_last_update_at = None, mining_ledger = []\<rparr>)
           | Some r \<Rightarrow> t(structure_id \<mapsto> r\<lparr>refinery_name := name\<rparr>)))"

definition update_refineries_from_esi :: "esi_answers \<Rightarrow> refinery_table \<Rightarrow> error option \<times> refinery_table" where
  "update_refineries_from_esi api t =
     (case corporation_structures api of
        Inl e \<Rightarrow> (Some e, t)
      | Inr structure_ids \<Rightarrow>
          (None, foldl (update_or_create_refinery api) t structure_ids |` set structure_ids))"

text \<open>
  Modelled from the spec: \<open>Refinery.update_mining_ledger_from_esi\<close> (models.py is
  missing), after section 7 of the specification and the tests of
  \<open>TestOwnerUpdateMiningLedger\<close>.  The time of the update is recorded and the flag is
  cleared first; an error of the external API ends the job with the exception; the flag is
  set when the ledger was stored.
\<close>

definition update_mining_ledger_from_esi ::
  "esi_answers \<Rightarrow> int \<Rightarrow> nat \<Rightarrow> refinery_row \<Rightarrow> error option \<times> refinery_row" where
  "update_mining_ledger_from_esi api now observer_id r =
     (let r1 = r\<lparr>ledger_last_update_ok := False, ledger_last_update_at := Some now\<rparr> in
      case mining_observer api observer_id of
        Inl e \<Rightarrow> (Some e, r1)
      | Inr records \<Rightarrow> (None, r1\<lparr>mining_ledger := records, ledger_last_update_ok := True\<rparr>))"

text \<open>
  The answers of the tests: two structures, with the details of the first raising; and the
  list of structures raising.
\<close>

definition athanor :: refinery_row where
  "athanor = \<lparr>refinery_name = ''Test'', ledger_last_update_ok = True,
               ledger_last_update_at = None, mining_ledger = []\<rparr>"

definition answers_first_fails :: esi_answers where
  "answers_first_fails =
     \<lparr>corporation_structures = Inr [1000000000001, 1000000000002],
      universe_structure =
        (\<lambda>i. if i = 1000000000001 then Inl OSError else Inr ''Auga - Paradise Beta''),
      mining_observer = (\<lambda>i. Inl OSError)\<rparr>"

definition answers_list_fails :: esi_answers where
  "answers_list_fails = answers_first_fails\<lparr>corporation_structures := Inl OSError\<rparr>"

text \<open>
  The refinery that is stored for a structure of the list after the update: as it was
  when the details of the structure raise, and with the name of the details otherwise.
\<close>

definition refinery_after :: "esi_answers \<Rightarrow> refinery_table \<Rightarrow> nat \<Rightarrow> refinery_row option" where
  "refinery_after api t i =
     (case universe_structure api i of
        Inl e \<Rightarrow> t i
      | Inr name \<Rightarrow>
          (case t i of
             None \<Rightarrow>
               Some \<lparr>refinery_name = name, ledger_last_update_ok = False,
                     ledger_last_update_at = None, mining_ledger = []\<rparr>
           | Some r \<Rightarrow> Some (r\<lparr>refinery_name := name\<rparr>)))"

definition three_refineries :: refinery_table where
  "three_refineries =
     [1000000000001 \<mapsto> athanor, 1000000000002 \<mapsto> athanor, 1990000000001 \<mapsto> athanor]"

section \<open>Properties of the notification loop\<close>

lemma and_then_simps [simp]:
  "and_then (None, s) f = f s"
  "and_then (Some e, s) f = (Some e, s)"
  by (simp_all add: and_then_def)

lemma process_notifications_append:
  "process_notifications api (xs @ ys) s =
     and_then (process_notifications api xs s) (process_notifications api ys)"
proof (induction xs arbitrary: s)
  case Nil
  show ?case by simp
next
  case (Cons x xs)
  show ?case
    by (cases "process_notification api x s"; cases "fst (process_notification api x s)")
       (simp_all add: Cons.IH)
qed

lemma same_moons_refl [simp]: "same_moons s s"
  by (simp add: same_moons_def)

lemma same_moons_trans: "same_moons s t \<Longrightarrow> same_moons t u \<Longrightarrow> same_moons s u"
  by (simp add: same_moons_def)

lemma and_then_same_moons:
  assumes "same_moons s (snd r)" and "\<And>t. same_moons s t \<Longrightarrow> same_moons s (snd (f t))"
  shows "same_moons s (snd (and_then r f))"
  using assms by (cases r; cases "fst r") (auto simp: and_then_def)

lemma product_get_or_create_refineries:
  "product_get_or_create e t v d = Inr d' \<Longrightarrow> refineries d' = refineries d"
  by (auto simp: product_get_or_create_def split: list.splits)

lemma add_products_same_moons: "same_moons s (snd (add_products api e ores s))"
proof (induction ores arbitrary: s)
  case Nil
  show ?case by simp
next
  case (Cons o1 ores)
  obtain t v where o1: "o1 = (t, v)" by (cases o1)
  show ?case
  proof (cases "product_get_or_create e t v (db s)")
    case (Inl err)
    then show ?thesis by (simp add: o1)
  next
    case (Inr d)
    have "same_moons s (s\<lparr>db := d\<rparr>)"
      using product_get_or_create_refineries [OF Inr] by (simp add: same_moons_def)
    then show ?thesis
      using Cons.IH [of "s\<lparr>db := d\<rparr>"] Inr by (auto simp: o1 intro: same_moons_trans)
  qed
qed

lemma extraction_get_or_create_refineries:
  "extraction_get_or_create rid r a d = Inr (e, d') \<Longrightarrow> refineries d' = refineries d"
  by (auto simp: extraction_get_or_create_def split: list.splits)

lemma extraction_started_same_moons: "same_moons s (snd (extraction_started api p rid s))"
proof (cases "readyTime p")
  case None
  then show ?thesis by (simp add: extraction_started_def)
next
  case ready: (Some r)
  show ?thesis
  proof (cases "autoTime p")
    case None
    then show ?thesis by (simp add: extraction_started_def ready)
  next
    case auto: (Some a)
    show ?thesis
    proof (cases "extraction_get_or_create rid (ldap_time_2_datetime api r)
                    (ldap_time_2_datetime api a) (db s)")
      case (Inl err)
      then show ?thesis by (simp add: extraction_started_def ready auto)
    next
      case (Inr res)
      obtain e d where res: "res = (e, d)" by (cases res)
      define s1 where
        "s1 = s\<lparr>db := d, last_extraction_started :=
                 (last_extraction_started s)(Builtin_id \<mapsto> Some e)\<rparr>"
      have s1: "same_moons s s1"
        using extraction_get_or_create_refineries [OF Inr [unfolded res]]
        by (simp add: same_moons_def s1_def)
      show ?thesis
      proof (cases "oreVolumeByType p")
        case None
        then show ?thesis
          using s1 by (simp add: extraction_started_def ready auto Inr res s1_def)
      next
        case (Some ores)
        have "same_moons s (snd (add_products api e ores s1))"
          using s1 add_products_same_moons by (rule same_moons_trans)
        then show ?thesis
          by (simp add: extraction_started_def ready auto Inr res s1_def Some)
      qed
    qed
  qed
qed

lemma extraction_cancelled_same_moons: "same_moons s (snd (extraction_cancelled sid s))"
  by (auto simp: extraction_cancelled_def same_moons_def delete_extraction_def split: option.splits)

lemma extraction_finished_same_moons: "same_moons s (snd (extraction_finished sid s))"
  by (simp add: extraction_finished_def same_moons_def)


lemma update_refinery_moon_done:
  "moon_updated s \<Longrightarrow> update_refinery_moon api p refinery s = (None, s)"
  by (simp add: update_refinery_moon_def split: option.splits)

lemma update_refinery_moon_unknown:
  "update_refinery_moon api p None s = (None, s)"
  by (simp add: update_refinery_moon_def)

lemma apply_event_same_moons:
  "same_moons s (snd (apply_event api n p sid refinery s))"
proof (cases "ntype n = ''MoonminingExtractionStarted'' \<and> refinery = None")
  case True
  then show ?thesis by (simp add: apply_event_def)
next
  case False
  let ?c1 = "ntype n = ''MoonminingExtractionStarted''"
  let ?c2 = "ntype n = ''MoonminingExtractionCancelled''"
  let ?c3 = "ntype n = ''MoonminingExtractionFinished''"
  have "same_moons s
     (snd (and_then
             (and_then
                (if ?c1 then extraction_started api p (the refinery) s else (None, s))
                (\<lambda>s2. if ?c2 then extraction_cancelled sid s2 else (None, s2)))
             (\<lambda>s3. if ?c3 then extraction_finished sid s3 else (None, s3))))"
  proof (rule and_then_same_moons)
    show "same_moons s
       (snd (and_then (if ?c1 then extraction_started api p (the refinery) s else (None, s))
                  (\<lambda>s2. if ?c2 then extraction_cancelled sid s2 else (None, s2))))"
    proof (rule and_then_same_moons)
      show "same_moons s (snd (if ?c1 then extraction_started api p (the refinery) s else (None, s)))"
        by (simp add: extraction_started_same_moons)
      show "same_moons s (snd (if ?c2 then extraction_cancelled sid t else (None, t)))"
        if "same_moons s t" for t
        using that extraction_cancelled_same_moons [of t sid] by (auto intro: same_moons_trans)
    qed
    show "same_moons s (snd (if ?c3 then extraction_finished sid t else (None, t)))"
      if "same_moons s t" for t
      using that extraction_finished_same_moons [of t sid] by (auto intro: same_moons_trans)
  qed
  with False show ?thesis unfolding apply_event_def by presburger
qed

lemma process_notification_after_update:
  assumes "moon_updated s"
  shows "same_moons s (snd (process_notification api n s))"
proof (cases "ntext n")
  case Invalid_yaml
  then show ?thesis by (simp add: process_notification_def)
next
  case Not_a_mapping
  then show ?thesis by (simp add: process_notification_def)
next
  case (Mapping p)
  show ?thesis
  proof (cases "structureID p")
    case None
    then show ?thesis by (simp add: process_notification_def Mapping)
  next
    case sid: (Some structure_id)
    show ?thesis
      using assms apply_event_same_moons
      by (simp add: process_notification_def Mapping sid Let_def update_refinery_moon_done)
  qed
qed

lemma process_notification_no_match:
  assumes "\<not> matches_known_refinery (db s) n"
  shows "same_moons s (snd (process_notification api n s))"
proof (cases "ntext n")
  case Invalid_yaml
  then show ?thesis by (simp add: process_notification_def)
next
  case Not_a_mapping
  then show ?thesis by (simp add: process_notification_def)
next
  case (Mapping p)
  show ?thesis
  proof (cases "structureID p")
    case None
    then show ?thesis by (simp add: process_notification_def Mapping)
  next
    case sid: (Some structure_id)
    show ?thesis
    proof (cases "ntype n \<in> set relevant_types")
      case False
      then show ?thesis by (simp add: process_notification_def Mapping sid)
    next
      case True
      with assms have "get_refinery (db s) structure_id = None"
        by (simp add: matches_known_refinery_def Mapping sid)
      then show ?thesis
        using apply_event_same_moons
        by (simp add: process_notification_def Mapping sid Let_def update_refinery_moon_unknown)
    qed
  qed
qed


lemma matches_same_moons:
  "same_moons s t \<Longrightarrow> matches_known_refinery (db t) n = matches_known_refinery (db s) n"
  by (simp add: matches_known_refinery_def same_moons_def get_refinery_def
      split: yaml_text.splits option.splits)

lemma update_refinery_moon_first:
  assumes "\<not> moon_updated s" and "refineries (db s) rid \<noteq> None"
  shows "moon_updated (snd (update_refinery_moon api p (Some rid) s))"
    and "r \<noteq> rid \<Longrightarrow>
           refineries (db (snd (update_refinery_moon api p (Some rid) s))) r = refineries (db s) r"
  using assms by (auto simp: update_refinery_moon_def Let_def split: option.splits)

lemma process_notification_match:
  assumes "\<not> moon_updated s" and "matches_known_refinery (db s) n"
  shows "moon_updated (snd (process_notification api n s))"
    and "Some r \<noteq> structure_of n \<Longrightarrow>
           refineries (db (snd (process_notification api n s))) r = refineries (db s) r"
proof -
  from assms(2) obtain p sid where p: "ntext n = Mapping p" and sid: "structureID p = Some sid"
    and rel: "ntype n \<in> set relevant_types" and known: "get_refinery (db s) sid = Some sid"
    by (auto simp: matches_known_refinery_def get_refinery_def
        split: yaml_text.splits option.splits if_splits)
  have known': "refineries (db s) sid \<noteq> None"
    using known by (auto simp: get_refinery_def split: if_splits)
  define u where "u = update_refinery_moon api p (Some sid) s"
  have step: "process_notification api n s = and_then u (apply_event api n p sid (Some sid))"
    using rel by (simp add: process_notification_def p sid known u_def Let_def)
  have u1: "moon_updated (snd u)"
    unfolding u_def by (rule update_refinery_moon_first(1) [OF assms(1) known'])
  have u2: "refineries (db (snd u)) r = refineries (db s) r" if "r \<noteq> sid" for r
    unfolding u_def by (rule update_refinery_moon_first(2) [OF assms(1) known' that])
  have fin: "same_moons (snd u) (snd (process_notification api n s))"
    unfolding step
    by (cases u; cases "fst u") (simp_all add: apply_event_same_moons)
  show "moon_updated (snd (process_notification api n s))"
    using fin u1 by (simp add: same_moons_def)
  show "refineries (db (snd (process_notification api n s))) r = refineries (db s) r"
    if "Some r \<noteq> structure_of n"
    using fin u2 [of r] that by (simp add: same_moons_def structure_of_def p sid)
qed

lemma process_notifications_after_update:
  "moon_updated s \<Longrightarrow> same_moons s (snd (process_notifications api ns s))"
proof (induction ns arbitrary: s)
  case Nil
  show ?case by simp
next
  case (Cons n ns)
  have "same_moons s (snd (and_then (process_notification api n s) (process_notifications api ns)))"
  proof (rule and_then_same_moons)
    show "same_moons s (snd (process_notification api n s))"
      by (rule process_notification_after_update [OF Cons.prems])
    show "same_moons s (snd (process_notifications api ns t))" if "same_moons s t" for t
    proof -
      from that Cons.prems have "moon_updated t" by (simp add: same_moons_def)
      from Cons.IH [OF this] that show ?thesis by (rule same_moons_trans [rotated])
    qed
  qed
  then show ?case by simp
qed

lemma process_notifications_no_match:
  "\<forall>m \<in> set ns. \<not> matches_known_refinery (db s) m \<Longrightarrow>
     same_moons s (snd (process_notifications api ns s))"
proof (induction ns arbitrary: s)
  case Nil
  show ?case by simp
next
  case (Cons n ns)
  have "same_moons s (snd (and_then (process_notification api n s) (process_notifications api ns)))"
  proof (rule and_then_same_moons)
    show "same_moons s (snd (process_notification api n s))"
      using Cons.prems by (simp add: process_notification_no_match)
    show "same_moons s (snd (process_notifications api ns t))" if "same_moons s t" for t
    proof -
      have "\<forall>m \<in> set ns. \<not> matches_known_refinery (db t) m"
        using Cons.prems matches_same_moons [OF that] by simp
      from Cons.IH [OF this] that show ?thesis by (rule same_moons_trans [rotated])
    qed
  qed
  then show ?case by simp
qed

lemma snd_and_then_error:
  "fst r \<noteq> None \<Longrightarrow> and_then r f = r"
  by (cases r; cases "fst r") (simp_all add: and_then_def)

lemma moon_correction_split:
  assumes order: "ns = pre @ n # post"
    and pre: "\<forall>m \<in> set pre. \<not> matches_known_refinery (db s) m"
    and n: "matches_known_refinery (db s) n"
    and flag: "\<not> moon_updated s"
  shows "refineries (db (snd (process_notifications api pre s))) = refineries (db s)"
    and "refineries (db (snd (process_notifications api ns s)))
           = refineries (db (snd (process_notifications api (pre @ [n]) s)))"
    and "Some r \<noteq> structure_of n \<Longrightarrow>
           refineries (db (snd (process_notifications api ns s))) r = refineries (db s) r"
proof -
  define a where "a = process_notifications api pre s"
  define b where "b = process_notifications api (pre @ [n]) s"
  have a: "same_moons s (snd a)"
    unfolding a_def by (rule process_notifications_no_match [OF pre])
  then show "refineries (db (snd (process_notifications api pre s))) = refineries (db s)"
    by (simp add: same_moons_def a_def)
  have b_eq: "b = and_then a (process_notification api n)"
    unfolding a_def b_def
    by (simp add: process_notifications_append)
       (cases "process_notifications api pre s"; cases "fst (process_notifications api pre s)";
        simp; cases "process_notification api n (snd (process_notifications api pre s))";
        cases "fst (process_notification api n (snd (process_notifications api pre s)))"; simp)
  have all: "process_notifications api ns s = and_then b (process_notifications api post)"
    unfolding b_def order using process_notifications_append [of api "pre @ [n]" post s] by simp
  have b_r: "Some r \<noteq> structure_of n \<Longrightarrow> refineries (db (snd b)) r = refineries (db s) r" for r
  proof (cases "fst a")
    case None
    assume r: "Some r \<noteq> structure_of n"
    from None have b': "b = process_notification api n (snd a)"
      unfolding b_eq by (cases a) simp
    have f: "\<not> moon_updated (snd a)" using a flag by (simp add: same_moons_def)
    have m: "matches_known_refinery (db (snd a)) n" using n matches_same_moons [OF a] by simp
    show ?thesis
      unfolding b' using process_notification_match(2) [OF f m r] a by (simp add: same_moons_def)
  next
    case (Some e)
    then have "b = a" unfolding b_eq by (simp add: snd_and_then_error)
    then show ?thesis using a by (simp add: same_moons_def)
  qed
  have fin: "same_moons (snd b) (snd (process_notifications api ns s))"
  proof (cases "fst b")
    case (Some e)
    then show ?thesis unfolding all by (simp add: snd_and_then_error)
  next
    case None
    then have "fst a = None" unfolding b_eq by (cases a; cases "fst a") simp_all
    then have b': "b = process_notification api n (snd a)"
      unfolding b_eq by (cases a) simp
    have f: "\<not> moon_updated (snd a)" using a flag by (simp add: same_moons_def)
    have m: "matches_known_refinery (db (snd a)) n" using n matches_same_moons [OF a] by simp
    have "moon_updated (snd b)"
      unfolding b' by (rule process_notification_match(1) [OF f m])
    from process_notifications_after_update [OF this, of api post] None
    show ?thesis unfolding all by (cases b) simp
  qed
  show "refineries (db (snd (process_notifications api ns s)))
           = refineries (db (snd (process_notifications api (pre @ [n]) s)))"
    using fin by (simp add: same_moons_def b_def)
  show "refineries (db (snd (process_notifications api ns s))) r = refineries (db s) r"
    if "Some r \<noteq> structure_of n"
    using fin b_r [OF that] by (simp add: same_moons_def)
qed

lemma sorted_example: "sorted_notifications [fired_2, cancelled_1, started_1] = [started_1, cancelled_1, fired_2]"
  by (simp add: sorted_notifications_def started_1_def cancelled_1_def fired_2_def)

subsection \<open>Order of processing\<close>

text \<open>
  C4: \<open>run_refineries_update\<close> applies the notifications in ascending order of their
  timestamps, whatever the order in which the external API returned them.  The processing
  order is a sorted rearrangement of the fetched notifications; a notification with an
  earlier timestamp stands before one with a later timestamp; and each notification is
  processed after all notifications before it in that order and before all after it.
\<close>

theorem notifications_applied_in_timestamp_order:
  "sorted (map timestamp (sorted_notifications notifications))
   \<and> mset (sorted_notifications notifications) = mset notifications
   \<and> (\<forall>a b. a \<in> set notifications \<and> b \<in> set notifications \<and> timestamp a < timestamp b \<longrightarrow>
         (\<exists>pre mid post. sorted_notifications notifications = pre @ a # mid @ b # post))
   \<and> (\<forall>pre a post. sorted_notifications notifications = pre @ a # post \<longrightarrow>
         (\<forall>b \<in> set pre. timestamp b \<le> timestamp a)
         \<and> (\<forall>b \<in> set post. timestamp a \<le> timestamp b)
         \<and> process_extraction_events api notifications d =
             and_then
               (and_then (process_notifications api pre (initial_state d))
                  (process_notification api a))
               (process_notifications api post))"
proof (intro conjI allI impI)
  let ?order = "sorted_notifications notifications"
  show srt: "sorted (map timestamp ?order)"
    by (simp add: sorted_notifications_def)
  show "mset ?order = mset notifications"
    by (simp add: sorted_notifications_def)
  have split: "(\<forall>b \<in> set pre. timestamp b \<le> timestamp a) \<and> (\<forall>b \<in> set post. timestamp a \<le> timestamp b)"
    if "?order = pre @ a # post" for pre a post
    using srt unfolding that by (auto simp: sorted_append)
  {
    fix a b
    assume ab: "a \<in> set notifications \<and> b \<in> set notifications \<and> timestamp a < timestamp b"
    then have "a \<in> set ?order" by (simp add: sorted_notifications_def)
    then obtain pre rest where o: "?order = pre @ a # rest" by (auto dest: split_list)
    from ab have "b \<in> set ?order" by (simp add: sorted_notifications_def)
    then have "b \<in> set pre \<or> b = a \<or> b \<in> set rest" unfolding o by auto
    moreover have "b \<notin> set pre" using split [OF o] ab by auto
    moreover have "b \<noteq> a" using ab by auto
    ultimately have "b \<in> set rest" by blast
    then obtain mid post where "rest = mid @ b # post" by (auto dest: split_list)
    with o show "\<exists>pre mid post. ?order = pre @ a # mid @ b # post" by blast
  }
  {
    fix pre a post
    assume o: "?order = pre @ a # post"
    show "\<forall>b \<in> set pre. timestamp b \<le> timestamp a" using split [OF o] by simp
    show "\<forall>b \<in> set post. timestamp a \<le> timestamp b" using split [OF o] by simp
    have "process_notifications api (pre @ a # post) s =
            and_then (and_then (process_notifications api pre s) (process_notification api a))
              (process_notifications api post)" for s
      by (cases "process_notifications api pre s"; cases "fst (process_notifications api pre s)")
         (simp_all add: process_notifications_append)
    then show "process_extraction_events api notifications d =
             and_then
               (and_then (process_notifications api pre (initial_state d))
                  (process_notification api a))
               (process_notifications api post)"
      by (simp add: process_extraction_events_def o)
  }
qed

theorem notifications_applied_in_timestamp_order_witness:
  "timestamp started_1 < timestamp fired_2
   \<and> (\<exists>pre mid post.
         sorted_notifications [fired_2, cancelled_1, started_1] = pre @ started_1 # mid @ fired_2 # post)
   \<and> timestamp started_1 \<le> timestamp cancelled_1
   \<and> timestamp cancelled_1 \<le> timestamp fired_2
   \<and> process_extraction_events api_all [fired_2, cancelled_1, started_1] two_refineries =
        and_then
          (and_then (process_notifications api_all [started_1] (initial_state two_refineries))
             (process_notification api_all cancelled_1))
          (process_notifications api_all [fired_2])"
proof -
  note inst = notifications_applied_in_timestamp_order
    [of "[fired_2, cancelled_1, started_1]" api_all two_refineries]
  have lt: "timestamp started_1 < timestamp fired_2"
    by (simp add: started_1_def fired_2_def)
  have o: "sorted_notifications [fired_2, cancelled_1, started_1] = [started_1] @ cancelled_1 # [fired_2]"
    by (simp add: sorted_example)
  from inst have
    "\<exists>pre mid post.
         sorted_notifications [fired_2, cancelled_1, started_1] = pre @ started_1 # mid @ fired_2 # post"
    using lt by simp
  moreover from inst o have
    "(\<forall>b \<in> set [started_1]. timestamp b \<le> timestamp cancelled_1)
     \<and> (\<forall>b \<in> set [fired_2]. timestamp cancelled_1 \<le> timestamp b)
     \<and> process_extraction_events api_all [fired_2, cancelled_1, started_1] two_refineries =
        and_then
          (and_then (process_notifications api_all [started_1] (initial_state two_refineries))
             (process_notification api_all cancelled_1))
          (process_notifications api_all [fired_2])"
    by blast
  ultimately show ?thesis using lt by simp
qed

subsection \<open>The moon of a refinery is corrected once per run\<close>

lemma started_1_matches: "matches_known_refinery two_refineries started_1"
  by (simp add: matches_known_refinery_def started_1_def two_refineries_def relevant_types_def
      get_refinery_def)

lemma fired_2_matches: "matches_known_refinery two_refineries fired_2"
  by (simp add: matches_known_refinery_def fired_2_def two_refineries_def relevant_types_def
      get_refinery_def)

text \<open>
  C9: during one run of the notification processing the moon of a refinery is corrected
  from the \<open>moonID\<close> of a notification at most once.  The notifications before the
  first relevant notification that matches a known refinery change no moon; that first one
  can change the moon of its own refinery only; all later notifications leave the moon of
  every refinery as it is, also when they refer to another refinery.  Without a matching
  notification no moon changes.
\<close>

theorem moon_correction_applied_at_most_once:
  "(\<forall>pre n post.
      sorted_notifications notifications = pre @ n # post
      \<and> (\<forall>m \<in> set pre. \<not> matches_known_refinery d m)
      \<and> matches_known_refinery d n \<longrightarrow>
        refineries (db (snd (process_notifications api pre (initial_state d)))) = refineries d
        \<and> refineries (db (snd (process_extraction_events api notifications d)))
            = refineries (db (snd (process_notifications api (pre @ [n]) (initial_state d))))
        \<and> (\<forall>r. Some r \<noteq> structure_of n \<longrightarrow>
              refineries (db (snd (process_extraction_events api notifications d))) r
                = refineries d r))
   \<and> ((\<forall>m \<in> set notifications. \<not> matches_known_refinery d m) \<longrightarrow>
        refineries (db (snd (process_extraction_events api notifications d))) = refineries d)"
proof (intro conjI allI impI)
  fix pre n post
  assume h: "sorted_notifications notifications = pre @ n # post
      \<and> (\<forall>m \<in> set pre. \<not> matches_known_refinery d m)
      \<and> matches_known_refinery d n"
  have o: "sorted_notifications notifications = pre @ n # post" using h by simp
  have p: "\<forall>m \<in> set pre. \<not> matches_known_refinery (db (initial_state d)) m"
    using h by (simp add: initial_state_def)
  have m: "matches_known_refinery (db (initial_state d)) n"
    using h by (simp add: initial_state_def)
  have f: "\<not> moon_updated (initial_state d)" by (simp add: initial_state_def)
  show "refineries (db (snd (process_notifications api pre (initial_state d)))) = refineries d"
    using moon_correction_split(1) [OF o p m f] by (simp add: initial_state_def)
  show "refineries (db (snd (process_extraction_events api notifications d)))
            = refineries (db (snd (process_notifications api (pre @ [n]) (initial_state d))))"
    using moon_correction_split(2) [OF o p m f] by (simp add: process_extraction_events_def)
  show "refineries (db (snd (process_extraction_events api notifications d))) r = refineries d r"
    if "Some r \<noteq> structure_of n" for r
    using moon_correction_split(3) [OF o p m f that]
    by (simp add: process_extraction_events_def initial_state_def)
next
  assume "\<forall>m \<in> set notifications. \<not> matches_known_refinery d m"
  then have "\<forall>m \<in> set (sorted_notifications notifications).
                \<not> matches_known_refinery (db (initial_state d)) m"
    by (simp add: sorted_notifications_def initial_state_def)
  from process_notifications_no_match [OF this]
  show "refineries (db (snd (process_extraction_events api notifications d))) = refineries d"
    by (simp add: process_extraction_events_def same_moons_def initial_state_def)
qed

theorem moon_correction_applied_at_most_once_witness:
  "matches_known_refinery two_refineries started_1
   \<and> matches_known_refinery two_refineries fired_2
   \<and> (\<exists>p. ntext fired_2 = Mapping p \<and> moonID p = Some 40161710)
   \<and> refineries (db (snd (process_extraction_events api_all
         [fired_2, cancelled_1, started_1] two_refineries))) 1000000000002 = Some (Some 40161709)"
proof -
  have o: "sorted_notifications [fired_2, cancelled_1, started_1]
             = [] @ started_1 # [cancelled_1, fired_2]"
    by (simp add: sorted_example)
  have r: "Some 1000000000002 \<noteq> structure_of started_1"
    by (simp add: structure_of_def started_1_def)
  from moon_correction_applied_at_most_once
         [of "[fired_2, cancelled_1, started_1]" two_refineries api_all]
       o started_1_matches r
  have "refineries (db (snd (process_extraction_events api_all
         [fired_2, cancelled_1, started_1] two_refineries))) 1000000000002
          = refineries two_refineries 1000000000002"
    by (metis empty_iff list.set(1))
  then show ?thesis
    using started_1_matches fired_2_matches by (simp add: two_refineries_def fired_2_def)
qed

subsection \<open>A cancelled extraction\<close>

text \<open>
  The dictionary \<open>last_extraction_started\<close> never has a structure id as a key, so a
  cancelled notification leaves the stored extractions as they are, in every run.
\<close>

lemma add_products_dict:
  "last_extraction_started (snd (add_products api e ores s)) = last_extraction_started s"
proof (induction ores arbitrary: s)
  case Nil
  show ?case by simp
next
  case (Cons o1 ores)
  obtain t v where o1: "o1 = (t, v)" by (cases o1)
  show ?case
    by (cases "product_get_or_create e t v (db s)") (simp_all add: o1 Cons.IH)
qed

lemma extraction_started_no_structure_key:
  "no_structure_key s \<Longrightarrow> no_structure_key (snd (extraction_started api p rid s))"
  by (auto simp: extraction_started_def no_structure_key_def add_products_dict Let_def
      split: option.splits sum.splits)

lemma update_refinery_moon_no_structure_key:
  "no_structure_key s \<Longrightarrow> no_structure_key (snd (update_refinery_moon api p refinery s))"
  by (auto simp: update_refinery_moon_def no_structure_key_def Let_def split: option.splits)

lemma extraction_cancelled_id:
  "no_structure_key s \<Longrightarrow> extraction_cancelled structure_id s = (None, s)"
  by (simp add: extraction_cancelled_def no_structure_key_def)

lemma extraction_finished_no_structure_key:
  "no_structure_key s \<Longrightarrow> no_structure_key (snd (extraction_finished structure_id s))"
  by (simp add: extraction_finished_def no_structure_key_def)

lemma apply_event_no_structure_key:
  assumes "no_structure_key s"
  shows "no_structure_key (snd (apply_event api n p sid refinery s))"
proof (cases "ntype n = ''MoonminingExtractionStarted''")
  case True
  then show ?thesis
    using assms extraction_started_no_structure_key [OF assms, of api p "the refinery"]
    by (cases "extraction_started api p (the refinery) s";
        cases "fst (extraction_started api p (the refinery) s)")
       (auto simp: apply_event_def)
next
  case False
  then show ?thesis
    using assms extraction_finished_no_structure_key [OF assms, of sid]
    by (auto simp: apply_event_def extraction_cancelled_id)
qed

lemma process_notification_no_structure_key:
  assumes "no_structure_key s"
  shows "no_structure_key (snd (process_notification api n s))"
proof (cases "ntext n")
  case Invalid_yaml
  then show ?thesis using assms by (simp add: process_notification_def)
next
  case Not_a_mapping
  then show ?thesis using assms by (simp add: process_notification_def)
next
  case (Mapping p)
  show ?thesis
  proof (cases "structureID p")
    case None
    then show ?thesis using assms by (simp add: process_notification_def Mapping)
  next
    case sid: (Some structure_id)
    define u where "u = update_refinery_moon api p (get_refinery (db s) structure_id) s"
    have u: "no_structure_key (snd u)"
      unfolding u_def by (rule update_refinery_moon_no_structure_key [OF assms])
    then have "no_structure_key
        (snd (and_then u (apply_event api n p structure_id (get_refinery (db s) structure_id))))"
      by (cases u; cases "fst u") (simp_all add: apply_event_no_structure_key)
    then show ?thesis
      using assms by (simp add: process_notification_def Mapping sid Let_def u_def)
  qed
qed

lemma process_notifications_no_structure_key:
  "no_structure_key s \<Longrightarrow> no_structure_key (snd (process_notifications api ns s))"
proof (induction ns arbitrary: s)
  case Nil
  then show ?case by simp
next
  case (Cons n ns)
  from process_notification_no_structure_key [OF Cons.prems, of api n]
  show ?case
    by (cases "process_notification api n s"; cases "fst (process_notification api n s)")
       (simp_all add: Cons.IH)
qed

lemma cancelled_never_deletes:
  assumes "sorted_notifications notifications = pre @ n # post"
    and "ntype n = ''MoonminingExtractionCancelled''"
    and "process_notifications api pre (initial_state d) = (None, s)"
  shows "extractions (db (snd (process_notification api n s))) = extractions (db s)"
proof -
  have "no_structure_key (initial_state d)"
    by (simp add: no_structure_key_def initial_state_def)
  from process_notifications_no_structure_key [OF this, of api pre] assms(3)
  have key: "no_structure_key s" by simp
  show ?thesis
  proof (cases "ntext n")
    case Invalid_yaml
    then show ?thesis by (simp add: process_notification_def)
  next
    case Not_a_mapping
    then show ?thesis by (simp add: process_notification_def)
  next
    case (Mapping p)
    show ?thesis
    proof (cases "structureID p")
      case None
      then show ?thesis by (simp add: process_notification_def Mapping)
    next
      case sid: (Some structure_id)
      define u where "u = update_refinery_moon api p (get_refinery (db s) structure_id) s"
      have e: "extractions (db (snd u)) = extractions (db s)"
        by (auto simp: u_def update_refinery_moon_def Let_def split: option.splits)
      have k: "no_structure_key (snd u)"
        unfolding u_def by (rule update_refinery_moon_no_structure_key [OF key])
      have "apply_event api n p structure_id r t = (None, t)" if "no_structure_key t" for r t
        using that assms(2) by (simp add: apply_event_def extraction_cancelled_id extraction_finished_def)
      with k have "snd (and_then u (apply_event api n p structure_id
                      (get_refinery (db s) structure_id))) = snd u"
        by (cases u; cases "fst u") simp_all
      with e show ?thesis
        by (simp add: process_notification_def Mapping sid Let_def u_def)
    qed
  qed
qed

lemmas loop_defs = process_extraction_events_def sorted_notifications_def initial_state_def
  process_notification_def relevant_types_def get_refinery_def update_refinery_moon_def
  apply_event_def extraction_started_def extraction_get_or_create_def Let_def
  product_get_or_create_def extraction_cancelled_def extraction_finished_def and_then_def

text \<open>
  C1: a cancelled notification should delete the extraction that the latest started
  notification of the same structure created in this run.  The run below has a started
  notification of refinery 1000000000001 followed by a cancelled notification of the same
  refinery, with no finished notification between them.  It ends without an exception, and
  the extraction that the started notification created is still stored, with its product:
  line 279 stores the extraction under the builtin \<open>id\<close>, so the lookup under the
  structure id in line 295 finds nothing.
\<close>

theorem cancelled_extraction_is_kept:
  "fst (process_extraction_events api_all [cancelled_1, started_1] two_refineries) = None
   \<and> extractions (db (snd (process_extraction_events api_all [cancelled_1, started_1]
                              two_refineries)))
       = [\<lparr>pk = 1, refinery_id = 1000000000001, ready_time = 1618430400000000,
           auto_time = 1618441200000000\<rparr>]
   \<and> extraction_products (db (snd (process_extraction_events api_all [cancelled_1, started_1]
                                      two_refineries)))
       = [\<lparr>extraction_pk = 1, eve_type_id = 45506, volume = 1288475\<rparr>]"
  by (simp add: loop_defs started_1_def cancelled_1_def two_refineries_def api_all_def)

section \<open>Properties of the survey processing\<close>

subsection \<open>The parser returns for every text\<close>

lemma split_on_nonempty: "split_on c s \<noteq> []"
  by (induction s) (auto split: list.splits)

lemma split_on_nonempty_sym: "[] \<noteq> split_on c s"
  using split_on_nonempty [of c s] by simp

lemma py_index_member: "x \<in> set xs \<Longrightarrow> \<exists>i. py_index xs x = Inr i"
  by (induction xs) auto

lemma find_sublists_total:
  "set rest \<subseteq> set lines \<Longrightarrow> [] \<notin> set rest \<Longrightarrow> \<exists>is. find_sublists lines rest = Inr is"
proof (induction rest)
  case Nil
  show ?case by simp
next
  case (Cons l rest)
  then obtain cell cells where l: "l = cell # cells" by (cases l) auto
  from Cons.prems obtain i where i: "py_index lines l = Inr i"
    using py_index_member [of l lines] by auto
  from Cons obtain "is" where "find_sublists lines rest = Inr is" by auto
  then show ?case by (simp add: l i [unfolded l])
qed

lemma split_lines_cells: "split_lines scans \<noteq> [] \<and> [] \<notin> set (split_lines scans)"
  by (auto simp: split_lines_def split_on_nonempty split_on_nonempty_sym)

lemma drop_header_total:
  "\<exists>lines. drop_header (split_lines scans) = Inr lines \<and> [] \<notin> set lines"
proof -
  obtain first rest where s: "split_lines scans = first # rest"
    using split_lines_cells [of scans] by (cases "split_lines scans") auto
  have "[] \<notin> set (first # rest)" using split_lines_cells [of scans] by (simp add: s)
  then show ?thesis
    by (cases first) (auto simp: drop_header_def s)
qed

lemma parse_surveys_total: "\<exists>surveys. parse_surveys scans = Inr surveys"
proof -
  from drop_header_total obtain lines
    where l: "drop_header (split_lines scans) = Inr lines" "[] \<notin> set lines" by blast
  from find_sublists_total [of lines lines] l(2) obtain "is"
    where "find_sublists lines lines = Inr is" by auto
  with l(1) show ?thesis by (simp add: parse_surveys_def)
qed

subsection \<open>The value that is returned\<close>

lemma report_success_eq: "report_success rs b = (b \<and> list_all r_success rs)"
  by (induction rs arbitrary: b) auto

lemma process_surveys_result:
  "process_surveys env ss b d = (rs, b', d') \<Longrightarrow>
     length rs = length ss \<and> b' = (b \<and> list_all r_success rs)"
proof (induction ss arbitrary: b d rs b' d')
  case Nil
  then show ?case by simp
next
  case (Cons s ss)
  obtain r d1 where r: "process_survey_m env s d = (r, d1)"
    by (cases "process_survey_m env s d")
  obtain rs1 b1 d2 where
    rest: "process_surveys env ss (if r_success r then b else False) d1 = (rs1, b1, d2)"
    by (cases "process_surveys env ss (if r_success r then b else False) d1")
  from Cons.prems have "rs = r # rs1" "b' = b1" by (simp_all add: r rest)
  with Cons.IH [OF rest] show ?case by auto
qed

lemma process_survey_loop_result:
  "process_survey_loop env ss b st = (rs, b', d') \<Longrightarrow>
     length rs = length ss \<and> b' = (if rs = [] then b else r_success (last rs))"
proof (induction ss arbitrary: b st rs b' d')
  case Nil
  then show ?case by simp
next
  case (Cons s ss)
  obtain r n d1 where r: "process_survey env s st = (r, n, d1)"
    by (cases "process_survey env s st")
  obtain rs1 b1 d2 where
    rest: "process_survey_loop env ss (r_success r) (n, d1) = (rs1, b1, d2)"
    by (cases "process_survey_loop env ss (r_success r) (n, d1)")
  from Cons.prems have "rs = r # rs1" "b' = b1" by (simp_all add: r rest)
  with Cons.IH [OF rest] show ?case by auto
qed

lemma update_moons_from_survey_success:
  assumes "parse_surveys scans = Inr surveys"
    and "process_surveys env surveys True d = (rs, b, d')"
  shows "fst (update_moons_from_survey env scans user d)
           = (surveys \<noteq> [] \<and> list_all r_success rs)"
  using assms process_surveys_result [OF assms(2)]
  by (auto simp: update_moons_from_survey_def parse_scans_def report_success_eq)

lemma process_survey_input_success:
  assumes "parse_surveys scans = Inr surveys"
    and "process_survey_loop env surveys True (None, d) = (rs, b, d')"
  shows "fst (process_survey_input env scans None d)
           = Inr (if rs = [] then True else r_success (last rs))"
    and "user_pk \<noteq> 0 \<Longrightarrow> user_exists env user_pk \<Longrightarrow>
         fst (process_survey_input env scans (Some user_pk) d) = Inr (list_all r_success rs)"
  using assms process_survey_loop_result [OF assms(2)]
  by (auto simp: process_survey_input_def report_success_eq list_all_iff)

lemma parse_empty: "parse_surveys '''' = Inr []"
  by (simp add: parse_surveys_def split_lines_def drop_header_def strip_def)

lemma parse_short_good: "parse_surveys scans_short_good = Inr [survey_short, survey_good]"
  by (simp add: parse_surveys_def split_lines_def drop_header_def strip_def scans_short_good_def
      LF_def CR_def TAB_def slice_def survey_short_def survey_good_def)

lemma survey_short_fails:
  "process_survey env_ok survey_short (None, db_one_moon)
     = (\<lparr>r_moon_name = Some ''Auga V - Moon 2'', r_success = False,
         r_error_name = Some IndexError\<rparr>, Some ''Auga V - Moon 2'', db_one_moon)"
  by (simp add: process_survey_def cell_at_def py_nth_def survey_short_def survey_statements_def)

lemma survey_bad_amount_fails:
  "fst (process_survey_m env_bad_amount survey_good db_one_moon)
     = \<lparr>r_moon_name = Some ''Auga V - Moon 1'', r_success = False,
         r_error_name = Some ValueError\<rparr>"
  by (simp add: process_survey_m_def cell_at_def py_nth_def survey_good_def env_bad_amount_def
      env_ok_def replace_products_def Let_def)

text \<open>
  C8: \<open>process_survey_input\<close> and \<open>update_moons_from_survey\<close> should return the same
  value, true exactly when at least one survey was parsed and every parsed survey was
  processed.  They parse the same surveys and both go on after a survey that failed, but
  the values differ.  For the empty input no survey is parsed: the task returns
  \<open>True\<close>, with or without a user, the manager \<open>False\<close>.  For a survey that fails
  followed by one that is processed, and no user, the task returns \<open>True\<close> (the variable
  \<open>success\<close> holds the result of the last survey), the manager \<open>False\<close>.
\<close>

theorem survey_success_values_differ:
  "fst (process_survey_input env_ok '''' None db_one_moon) = Inr True
   \<and> fst (update_moons_from_survey env_ok '''' None db_one_moon) = False
   \<and> fst (process_survey_input env_ok '''' (Some 1) db_one_moon) = Inr True
   \<and> fst (update_moons_from_survey env_ok '''' (Some 1) db_one_moon) = False
   \<and> parse_surveys scans_short_good = Inr [survey_short, survey_good]
   \<and> \<not> r_success (fst (process_survey env_ok survey_short (None, db_one_moon)))
   \<and> fst (process_survey_input env_ok scans_short_good None db_one_moon) = Inr True
   \<and> fst (update_moons_from_survey env_ok scans_short_good None db_one_moon) = False"
  by (simp add: process_survey_input_def update_moons_from_survey_def parse_scans_def
      parse_empty parse_short_good survey_short_fails)
     (simp add: process_survey_def process_survey_m_def cell_at_def py_nth_def survey_good_def
        survey_short_def env_ok_def replace_products_def Let_def survey_statements_def
        products_of_def db_one_moon_def moon_get_or_create_def)

subsection \<open>The products of a moon are replaced in a transaction\<close>

lemma cell_at_eq:
  "cell_at s i j = (if i < length s \<and> j < length (s ! i) then Inr (s ! i ! j) else Inl IndexError)"
  by (simp add: cell_at_def py_nth_def)

lemma py_nth_drop:
  assumes "4 \<le> length row"
  shows "py_nth (drop (Suc 0) row) 2 = Inr (row ! 3)"
    and "py_nth (drop (Suc 0) row) (Suc 0) = Inr (row ! 2)"
  using assms by (simp_all add: py_nth_def numeral_3_eq_3 numeral_2_eq_2)

lemma create_products_ok:
  "list_all (\<lambda>row. 4 \<le> length row \<and> eve_type_ok env (row ! 3) \<and> amount_ok env (row ! 2)) rows
   \<Longrightarrow> d m = Some ps
   \<Longrightarrow> create_products env m rows d = Inr (d(m \<mapsto> ps @ map product_of_row rows))"
proof (induction rows arbitrary: d ps)
  case Nil
  then show ?case by (auto simp: fun_eq_iff)
next
  case (Cons row rows)
  from Cons.prems have row: "4 \<le> length row" "eve_type_ok env (row ! 3)" "amount_ok env (row ! 2)"
    and rest: "list_all (\<lambda>row. 4 \<le> length row \<and> eve_type_ok env (row ! 3)
                  \<and> amount_ok env (row ! 2)) rows"
    by simp_all
  note n2 = py_nth_drop(1) [OF row(1)] and n1 = py_nth_drop(2) [OF row(1)]
  let ?d1 = "d(m \<mapsto> products_of d m @ [(row ! 2, row ! 3)])"
  have d1: "?d1 m = Some (ps @ [(row ! 2, row ! 3)])"
    using Cons.prems(2) by (simp add: products_of_def)
  have step: "create_products env m (row # rows) d = create_products env m rows ?d1"
    using row by (simp add: n1 n2 Let_def)
  have "create_products env m rows ?d1
          = Inr (?d1(m \<mapsto> (ps @ [(row ! 2, row ! 3)]) @ map product_of_row rows))"
    by (rule Cons.IH [where d = ?d1, OF rest d1])
  also have "?d1(m \<mapsto> (ps @ [(row ! 2, row ! 3)]) @ map product_of_row rows)
               = d(m \<mapsto> ps @ map product_of_row (row # rows))"
    by (simp add: product_of_row_def)
  finally show ?case unfolding step .
qed

lemma create_products_fail:
  "\<not> list_all (\<lambda>row. 4 \<le> length row \<and> eve_type_ok env (row ! 3) \<and> amount_ok env (row ! 2)) rows
   \<Longrightarrow> \<exists>e. create_products env m rows d = Inl e"
proof (induction rows arbitrary: d)
  case Nil
  then show ?case by simp
next
  case (Cons row rows)
  show ?case
  proof (cases "4 \<le> length row \<and> eve_type_ok env (row ! 3) \<and> amount_ok env (row ! 2)")
    case True
    then have len: "4 \<le> length row" by simp
    note n2 = py_nth_drop(1) [OF len] and n1 = py_nth_drop(2) [OF len]
    from True Cons.prems have "\<not> list_all (\<lambda>row. 4 \<le> length row \<and> eve_type_ok env (row ! 3)
                  \<and> amount_ok env (row ! 2)) rows" by simp
    from Cons.IH [OF this] True show ?thesis by (simp add: n1 n2 Let_def)
  next
    case False
    show ?thesis
    proof (cases "4 \<le> length row")
      case True
      note n2 = py_nth_drop(1) [OF True] and n1 = py_nth_drop(2) [OF True]
      from False True show ?thesis by (auto simp: Let_def n1 n2)
    next
      case False
      then have "py_nth (drop 1 row) 2 = Inl IndexError" by (simp add: py_nth_def)
      then show ?thesis by (simp add: Let_def)
    qed
  qed
qed

lemma collect_products_ok:
  "list_all (\<lambda>row. 4 \<le> length row \<and> ore_type_ok env (row ! 3)) rows
   \<Longrightarrow> collect_products env rows = Inr (map product_of_row rows)"
proof (induction rows)
  case Nil
  show ?case by simp
next
  case (Cons row rows)
  then have len: "4 \<le> length row" by simp
  note n2 = py_nth_drop(1) [OF len] and n1 = py_nth_drop(2) [OF len]
  from Cons show ?case by (simp add: n1 n2 Let_def product_of_row_def)
qed

lemma collect_products_fail:
  "\<not> list_all (\<lambda>row. 4 \<le> length row \<and> ore_type_ok env (row ! 3)) rows
   \<Longrightarrow> \<exists>e. collect_products env rows = Inl e"
proof (induction rows)
  case Nil
  then show ?case by simp
next
  case (Cons row rows)
  show ?case
  proof (cases "4 \<le> length row")
    case True
    note n2 = py_nth_drop(1) [OF True] and n1 = py_nth_drop(2) [OF True]
    show ?thesis
    proof (cases "ore_type_ok env (row ! 3)")
      case ok: True
      with True Cons.prems have "\<not> list_all (\<lambda>row. 4 \<le> length row \<and> ore_type_ok env (row ! 3)) rows"
        by simp
      from Cons.IH [OF this] obtain e where "collect_products env rows = Inl e" by blast
      with ok show ?thesis by (simp add: n1 n2 Let_def)
    next
      case False
      then show ?thesis by (simp add: n2 Let_def)
    qed
  next
    case False
    then have "py_nth (drop 1 row) 2 = Inl IndexError" by (simp add: py_nth_def)
    then show ?thesis by (simp add: Let_def)
  qed
qed

lemma moon_get_or_create_upd: "(moon_get_or_create m d)(m \<mapsto> ps) = d(m \<mapsto> ps)"
  by (auto simp: moon_get_or_create_def fun_eq_iff split: option.splits)

lemma amounts_of_products:
  "list_all (\<lambda>(amount, type_id). amount_ok env amount) (map product_of_row rows)
     = list_all (\<lambda>row. amount_ok env (row ! 2)) rows"
  by (induction rows) (simp_all add: product_of_row_def)

lemma cells_ok_cells:
  assumes "survey_cells_ok env s"
  shows "cell_at s 0 0 = Inr (s ! 0 ! 0)" and "cell_at s 1 6 = Inr (moon_id_of s)"
    and "eve_moon_ok env (moon_id_of s)"
  using assms by (auto simp: survey_cells_ok_def cell_at_eq moon_id_of_def Suc_le_eq)

lemma cells_not_ok:
  assumes "\<not> survey_cells_ok env s"
  shows "(\<exists>e. cell_at s 0 0 = Inl e) \<or> (\<exists>e. cell_at s 1 6 = Inl e)
         \<or> (\<exists>m. cell_at s 1 6 = Inr m \<and> \<not> eve_moon_ok env m)"
  using assms by (auto simp: survey_cells_ok_def cell_at_eq moon_id_of_def Suc_le_eq)

lemma task_success:
  assumes "survey_cells_ok env s" and "rows_ok_task env s"
    and "update_income_estimate_ok env (moon_id_of s)"
  shows "process_survey env s (n0, d) =
           (\<lparr>r_moon_name = Some (s ! 0 ! 0), r_success = True, r_error_name = None\<rparr>,
            Some (s ! 0 ! 0), d(moon_id_of s \<mapsto> survey_products s))"
proof -
  have "((moon_get_or_create (moon_id_of s) d)(moon_id_of s \<mapsto> [])) (moon_id_of s) = Some []"
    by simp
  from create_products_ok [where ps = "[]" and m = "moon_id_of s"
      and d = "(moon_get_or_create (moon_id_of s) d)(moon_id_of s \<mapsto> [])",
      OF assms(2) [unfolded rows_ok_task_def] this]
  have "create_products env (moon_id_of s) (drop 1 s)
          ((moon_get_or_create (moon_id_of s) d)(moon_id_of s \<mapsto> []))
        = Inr (d(moon_id_of s \<mapsto> survey_products s))"
    by (simp add: moon_get_or_create_upd survey_products_def)
  then show ?thesis
    using assms(3) cells_ok_cells [OF assms(1)]
    by (simp add: process_survey_def survey_statements_def)
qed

lemma task_failure:
  assumes "\<not> (survey_cells_ok env s \<and> rows_ok_task env s
              \<and> update_income_estimate_ok env (moon_id_of s))"
  shows "\<exists>r n. process_survey env s (n0, d) = (r, n, d) \<and> \<not> r_success r"
proof (cases "survey_cells_ok env s")
  case False
  from cells_not_ok [OF this] show ?thesis
    by (auto simp: process_survey_def survey_statements_def split: sum.splits)
next
  case True
  note cells = cells_ok_cells [OF True]
  show ?thesis
  proof (cases "rows_ok_task env s")
    case False
    from create_products_fail [OF False [unfolded rows_ok_task_def]] obtain e
      where "create_products env (moon_id_of s) (drop 1 s)
          ((moon_get_or_create (moon_id_of s) d)(moon_id_of s \<mapsto> [])) = Inl e"
      by blast
    then show ?thesis
      using cells by (simp add: process_survey_def survey_statements_def)
  next
    case rows: True
    with True assms have "\<not> update_income_estimate_ok env (moon_id_of s)" by simp
    then show ?thesis
      using cells by (auto simp: process_survey_def survey_statements_def split: sum.splits)
  qed
qed

lemma manager_cells_fail:
  assumes "\<not> survey_cells_ok env s"
  shows "\<exists>r. process_survey_m env s d = (r, d) \<and> \<not> r_success r"
  using cells_not_ok [OF assms]
  by (auto simp: process_survey_m_def Let_def split: sum.splits)

lemma manager_rows_fail:
  assumes "survey_cells_ok env s" and "\<not> (rows_ok_manager env s \<and> amounts_ok env s)"
  shows "\<exists>r. process_survey_m env s d = (r, moon_get_or_create (moon_id_of s) d)
              \<and> \<not> r_success r"
proof (cases "rows_ok_manager env s")
  case False
  from collect_products_fail [OF False [unfolded rows_ok_manager_def]] obtain e
    where "collect_products env (drop 1 s) = Inl e" by blast
  then show ?thesis
    using cells_ok_cells [OF assms(1)] by (simp add: process_survey_m_def Let_def)
next
  case True
  with assms(2) have a: "\<not> amounts_ok env s" by simp
  from collect_products_ok [OF True [unfolded rows_ok_manager_def]]
  have c: "collect_products env (drop 1 s) = Inr (map product_of_row (drop 1 s))" .
  have "replace_products env (moon_id_of s) (map product_of_row (drop 1 s))
          (moon_get_or_create (moon_id_of s) d) = Inl ValueError"
    using a by (simp add: replace_products_def amounts_of_products amounts_ok_def)
  then show ?thesis
    using cells_ok_cells [OF assms(1)] c by (simp add: process_survey_m_def Let_def)
qed

lemma manager_stored:
  assumes "survey_cells_ok env s" and "rows_ok_manager env s" and "amounts_ok env s"
  shows "\<exists>r. process_survey_m env s d = (r, d(moon_id_of s \<mapsto> survey_products s))
              \<and> r_success r = update_calculated_properties_ok env (moon_id_of s)"
proof -
  from collect_products_ok [OF assms(2) [unfolded rows_ok_manager_def]]
  have c: "collect_products env (drop 1 s) = Inr (map product_of_row (drop 1 s))" .
  have "replace_products env (moon_id_of s) (map product_of_row (drop 1 s))
          (moon_get_or_create (moon_id_of s) d) = Inr (d(moon_id_of s \<mapsto> survey_products s))"
    using assms(3)
    by (simp add: replace_products_def amounts_of_products amounts_ok_def
        moon_get_or_create_upd survey_products_def)
  then show ?thesis
    using cells_ok_cells [OF assms(1)] c by (simp add: process_survey_m_def Let_def)
qed


lemma products_of_moon_get_or_create [simp]:
  "products_of (moon_get_or_create m d) x = products_of d x"
  by (simp add: products_of_def moon_get_or_create_def split: option.splits)

lemma products_of_upd [simp]:
  "products_of (d(m \<mapsto> ps)) x = (if x = m then ps else products_of d x)"
  by (simp add: products_of_def)

lemma replace_products_cases:
  "replace_products env m ps d = Inr d2 \<Longrightarrow> d2 = d(m \<mapsto> ps)"
  by (simp add: replace_products_def split: if_splits)

lemma process_survey_failure:
  "process_survey env s (n0, d) = (r, n, d') \<Longrightarrow> \<not> r_success r \<Longrightarrow> d' = d"
  by (auto simp: process_survey_def split: sum.splits)

lemma process_survey_m_products:
  assumes "process_survey_m env s d = (r, d')"
  shows "products_of d' m = products_of d m
         \<or> (cell_at s 1 6 = Inr m \<and> collect_products env (drop 1 s) = Inr (products_of d' m))"
  using assms
  by (auto simp: process_survey_m_def Let_def
      split: sum.splits if_splits dest!: replace_products_cases)

lemma process_survey_m_failure:
  assumes "process_survey_m env s d = (r, d')" and "\<not> r_success r"
    and "\<forall>m. update_calculated_properties_ok env m"
  shows "products_of d' m = products_of d m"
  using assms
  by (auto simp: process_survey_m_def Let_def split: sum.splits if_splits)

lemma survey_good_facts:
  "moon_id_of survey_good = ''40161708''"
  "survey_products survey_good = [(''0.3'', ''45506'')]"
  "survey_cells_ok env_ok survey_good"
  "survey_cells_ok env_bad_amount survey_good"
  "survey_cells_ok env_update_fails survey_good"
  "rows_ok_task env_ok survey_good"
  "rows_ok_manager env_update_fails survey_good"
  "amounts_ok env_update_fails survey_good"
  "\<not> amounts_ok env_bad_amount survey_good"
  "update_income_estimate_ok env_ok ''40161708''"
  "\<not> update_calculated_properties_ok env_update_fails ''40161708''"
  by (simp_all add: moon_id_of_def survey_products_def product_of_row_def survey_cells_ok_def
      rows_ok_task_def rows_ok_manager_def amounts_ok_def survey_good_def env_ok_def
      env_bad_amount_def env_update_fails_def)

lemma survey_short_facts: "\<not> survey_cells_ok env_ok survey_short"
  by (simp add: survey_cells_ok_def survey_short_def)

text \<open>
  C5, amended: the products of a moon are replaced inside one database transaction, so
  that after a survey the products of every moon are those it had or, for the moon of the
  survey, the whole list of the survey.  In \<open>process_survey_input\<close> the transaction
  encloses the whole processing of a survey: a survey that is processed stores the list
  of the survey for its moon and changes nothing else, and a survey that fails leaves the
  database as it was.  In \<open>_process_surveys\<close> the transaction encloses the deletion and
  the creation only: a survey that fails before the transaction has committed leaves
  every moon with the products it had (the row of the moon may have been created); once
  the products are stored, the survey has failed exactly when
  \<open>update_calculated_properties\<close>, which runs after the transaction, raises, and the
  new products stay stored.
\<close>

theorem survey_products_replaced_in_transaction:
  "(survey_cells_ok env s \<and> rows_ok_task env s
      \<and> update_income_estimate_ok env (moon_id_of s) \<longrightarrow>
      (\<exists>r n. process_survey env s (n0, d) = (r, n, d(moon_id_of s \<mapsto> survey_products s))
             \<and> r_success r))
   \<and> (\<not> (survey_cells_ok env s \<and> rows_ok_task env s
            \<and> update_income_estimate_ok env (moon_id_of s)) \<longrightarrow>
        (\<exists>r n. process_survey env s (n0, d) = (r, n, d) \<and> \<not> r_success r))
   \<and> (\<not> survey_cells_ok env s \<longrightarrow>
        (\<exists>r. process_survey_m env s d = (r, d) \<and> \<not> r_success r))
   \<and> (survey_cells_ok env s \<and> \<not> (rows_ok_manager env s \<and> amounts_ok env s) \<longrightarrow>
        (\<exists>r. process_survey_m env s d = (r, moon_get_or_create (moon_id_of s) d)
              \<and> \<not> r_success r))
   \<and> (survey_cells_ok env s \<and> rows_ok_manager env s \<and> amounts_ok env s \<longrightarrow>
        (\<exists>r. process_survey_m env s d = (r, d(moon_id_of s \<mapsto> survey_products s))
              \<and> r_success r = update_calculated_properties_ok env (moon_id_of s)))
   \<and> (\<forall>m x. products_of (moon_get_or_create m d) x = products_of d x)
   \<and> (\<forall>r n d'. process_survey env s (n0, d) = (r, n, d') \<and> \<not> r_success r \<longrightarrow> d' = d)
   \<and> (\<forall>r d'. process_survey_m env s d = (r, d') \<and> \<not> r_success r
                \<and> (\<forall>m. update_calculated_properties_ok env m) \<longrightarrow>
                (\<forall>m. products_of d' m = products_of d m))
   \<and> (\<forall>r d' m. process_survey_m env s d = (r, d') \<longrightarrow>
         products_of d' m = products_of d m
         \<or> (cell_at s 1 6 = Inr m \<and> collect_products env (drop 1 s) = Inr (products_of d' m)))"
proof (intro conjI)
  show "survey_cells_ok env s \<and> rows_ok_task env s
      \<and> update_income_estimate_ok env (moon_id_of s) \<longrightarrow>
      (\<exists>r n. process_survey env s (n0, d) = (r, n, d(moon_id_of s \<mapsto> survey_products s))
             \<and> r_success r)"
    using task_success [of env s n0 d] by simp
  show "\<not> (survey_cells_ok env s \<and> rows_ok_task env s
            \<and> update_income_estimate_ok env (moon_id_of s)) \<longrightarrow>
        (\<exists>r n. process_survey env s (n0, d) = (r, n, d) \<and> \<not> r_success r)"
    using task_failure [of env s n0 d] by blast
  show "\<not> survey_cells_ok env s \<longrightarrow>
        (\<exists>r. process_survey_m env s d = (r, d) \<and> \<not> r_success r)"
    using manager_cells_fail [of env s d] by blast
  show "survey_cells_ok env s \<and> \<not> (rows_ok_manager env s \<and> amounts_ok env s) \<longrightarrow>
        (\<exists>r. process_survey_m env s d = (r, moon_get_or_create (moon_id_of s) d)
              \<and> \<not> r_success r)"
    using manager_rows_fail [of env s d] by blast
  show "survey_cells_ok env s \<and> rows_ok_manager env s \<and> amounts_ok env s \<longrightarrow>
        (\<exists>r. process_survey_m env s d = (r, d(moon_id_of s \<mapsto> survey_products s))
              \<and> r_success r = update_calculated_properties_ok env (moon_id_of s))"
    using manager_stored [of env s d] by blast
  show "\<forall>m x. products_of (moon_get_or_create m d) x = products_of d x"
    by simp
  show "\<forall>r n d'. process_survey env s (n0, d) = (r, n, d') \<and> \<not> r_success r \<longrightarrow> d' = d"
    using process_survey_failure [of env s n0 d] by blast
  show "\<forall>r d'. process_survey_m env s d = (r, d') \<and> \<not> r_success r
                \<and> (\<forall>m. update_calculated_properties_ok env m) \<longrightarrow>
                (\<forall>m. products_of d' m = products_of d m)"
    using process_survey_m_failure [of env s d] by blast
  show "\<forall>r d' m. process_survey_m env s d = (r, d') \<longrightarrow>
         products_of d' m = products_of d m
         \<or> (cell_at s 1 6 = Inr m \<and> collect_products env (drop 1 s) = Inr (products_of d' m))"
    using process_survey_m_products [of env s d] by blast
qed

theorem survey_products_replaced_in_transaction_witness:
  "(\<exists>r n. process_survey env_ok survey_good (None, db_one_moon)
            = (r, n, db_one_moon(''40161708'' \<mapsto> [(''0.3'', ''45506'')])) \<and> r_success r)
   \<and> (\<exists>r n. process_survey env_ok survey_short (None, db_one_moon) = (r, n, db_one_moon)
            \<and> \<not> r_success r)
   \<and> (\<exists>r. process_survey_m env_bad_amount survey_good db_one_moon
            = (r, moon_get_or_create ''40161708'' db_one_moon) \<and> \<not> r_success r)
   \<and> products_of (moon_get_or_create ''40161708'' db_one_moon) ''40161708''
        = [(''0.5'', ''45490'')]
   \<and> (\<exists>r. process_survey_m env_update_fails survey_good db_one_moon
            = (r, db_one_moon(''40161708'' \<mapsto> [(''0.3'', ''45506'')])) \<and> \<not> r_success r)"
proof -
  note t1 = survey_products_replaced_in_transaction [of env_ok survey_good None db_one_moon]
  note t2 = survey_products_replaced_in_transaction [of env_ok survey_short None db_one_moon]
  note t3 = survey_products_replaced_in_transaction
    [of env_bad_amount survey_good None db_one_moon]
  note t4 = survey_products_replaced_in_transaction
    [of env_update_fails survey_good None db_one_moon]
  have a: "\<exists>r n. process_survey env_ok survey_good (None, db_one_moon)
            = (r, n, db_one_moon(''40161708'' \<mapsto> [(''0.3'', ''45506'')])) \<and> r_success r"
    using mp [OF conjunct1 [OF t1]] survey_good_facts by simp
  have b: "\<exists>r n. process_survey env_ok survey_short (None, db_one_moon) = (r, n, db_one_moon)
            \<and> \<not> r_success r"
    using mp [OF conjunct1 [OF conjunct2 [OF t2]]] survey_short_facts by simp
  have c: "\<exists>r. process_survey_m env_bad_amount survey_good db_one_moon
            = (r, moon_get_or_create ''40161708'' db_one_moon) \<and> \<not> r_success r"
    using mp [OF conjunct1 [OF conjunct2 [OF conjunct2 [OF conjunct2 [OF t3]]]]]
      survey_good_facts by simp
  have d: "products_of (moon_get_or_create ''40161708'' db_one_moon) ''40161708''
        = [(''0.5'', ''45490'')]"
    using conjunct1 [OF conjunct2 [OF conjunct2 [OF conjunct2 [OF conjunct2 [OF conjunct2
      [OF t1]]]]]]
    by (simp add: products_of_def db_one_moon_def)
  have e: "\<exists>r. process_survey_m env_update_fails survey_good db_one_moon
            = (r, db_one_moon(''40161708'' \<mapsto> [(''0.3'', ''45506'')])) \<and> \<not> r_success r"
    using mp [OF conjunct1 [OF conjunct2 [OF conjunct2 [OF conjunct2 [OF conjunct2 [OF t4]]]]]]
      survey_good_facts by simp
  from a b c d e show ?thesis by (intro conjI)
qed

text \<open>
  C5, as it is stated, fails for \<open>_process_surveys\<close>: when
  \<open>update_calculated_properties\<close> raises, the survey has failed and the transaction has
  already stored the new products.
\<close>

theorem survey_failure_after_transaction_counterexample:
  "\<not> (\<forall>env s d m. \<not> r_success (fst (process_survey_m env s d)) \<longrightarrow>
         products_of (snd (process_survey_m env s d)) m = products_of d m)"
proof
  assume "\<forall>env s d m. \<not> r_success (fst (process_survey_m env s d)) \<longrightarrow>
         products_of (snd (process_survey_m env s d)) m = products_of d m"
  then have "\<not> r_success (fst (process_survey_m env_update_fails survey_good db_one_moon)) \<longrightarrow>
         products_of (snd (process_survey_m env_update_fails survey_good db_one_moon)) ''40161708''
           = products_of db_one_moon ''40161708''"
    by blast
  then show False
    by (simp add: process_survey_m_def cell_at_def py_nth_def survey_good_def
        env_update_fails_def env_ok_def replace_products_def Let_def products_of_def
        db_one_moon_def moon_get_or_create_def)
qed

section \<open>Properties of \<open>update_calculated_properties\<close>\<close>

lemma executor_step_invariant:
  assumes "executor_step x y"
    and "length (running x) \<le> MAX_THREAD_WORKERS"
    and "mset (waiting x) + mset (running x) + mset (returned x) = M"
  shows "length (running y) \<le> MAX_THREAD_WORKERS
         \<and> mset (waiting y) + mset (running y) + mset (returned y) = M"
  using assms
proof (cases rule: executor_step.cases)
  case (start obj_pk rest)
  with assms show ?thesis by auto
next
  case (return obj_pk)
  then have "length (remove1 obj_pk (running x)) \<le> length (running x)"
    by (simp add: length_remove1)
  moreover have "mset (remove1 obj_pk (running x)) + {#obj_pk#} = mset (running x)"
    using return by simp
  ultimately show ?thesis using return assms
    by (auto simp: ac_simps)
qed

lemma reaches_invariant:
  assumes "executor_step\<^sup>*\<^sup>* (submitted obj_pks) x"
  shows "length (running x) \<le> MAX_THREAD_WORKERS
         \<and> mset (waiting x) + mset (running x) + mset (returned x) = mset obj_pks"
  using assms
proof (induction rule: rtranclp_induct)
  case base
  show ?case by (simp add: submitted_def)
next
  case (step y z)
  from executor_step_invariant [OF step.hyps(2)] step.IH show ?case by blast
qed

lemma executor_stuck:
  assumes "\<not> (\<exists>y. executor_step x y)"
  shows "waiting x = [] \<and> running x = []"
proof -
  have r: "running x = []"
  proof (cases "running x")
    case Nil
    then show ?thesis .
  next
    case (Cons p ps)
    then have "p \<in> set (running x)" by simp
    from executor_step.return [OF this] assms show ?thesis by blast
  qed
  have "waiting x = []"
  proof (cases "waiting x")
    case Nil
    then show ?thesis .
  next
    case (Cons p ps)
    have "length (running x) < MAX_THREAD_WORKERS" by (simp add: r MAX_THREAD_WORKERS_def)
    from executor_step.start [OF Cons this] assms show ?thesis by blast
  qed
  with r show ?thesis by simp
qed

lemma start_many:
  "k \<le> MAX_THREAD_WORKERS \<Longrightarrow> k \<le> length obj_pks \<Longrightarrow>
     executor_step\<^sup>*\<^sup>* (submitted obj_pks)
       \<lparr>waiting = drop k obj_pks, running = take k obj_pks, returned = []\<rparr>"
proof (induction k)
  case 0
  show ?case by (simp add: submitted_def)
next
  case (Suc k)
  let ?x = "\<lparr>waiting = drop k obj_pks, running = take k obj_pks, returned = []\<rparr>"
  from Suc have reach: "executor_step\<^sup>*\<^sup>* (submitted obj_pks) ?x" by simp
  from Suc.prems have w: "waiting ?x = obj_pks ! k # drop (Suc k) obj_pks"
    by (simp add: Cons_nth_drop_Suc)
  from Suc.prems have l: "length (running ?x) < MAX_THREAD_WORKERS" by simp
  from executor_step.start [OF w l] Suc.prems
  have "executor_step ?x
          \<lparr>waiting = drop (Suc k) obj_pks, running = take (Suc k) obj_pks, returned = []\<rparr>"
    by (simp add: take_Suc_conv_app_nth)
  with reach show ?case by (rule rtranclp.rtrancl_into_rtrancl)
qed

lemma two_running:
  "update_calculated_properties_reaches [1, 2] \<lparr>waiting = [], running = [1, 2], returned = []\<rparr>"
  unfolding update_calculated_properties_reaches_def
  using start_many [of 2 "[1, 2]"] by (simp add: MAX_THREAD_WORKERS_def)

lemma second_returns_first:
  "update_calculated_properties_reaches [1, 2] \<lparr>waiting = [], running = [], returned = [2, 1]\<rparr>"
proof -
  let ?a = "\<lparr>waiting = [], running = [1, 2::nat], returned = []\<rparr>"
  let ?b = "\<lparr>waiting = [], running = [1::nat], returned = [2]\<rparr>"
  let ?c = "\<lparr>waiting = [], running = [], returned = [2, 1::nat]\<rparr>"
  have "executor_step ?a ?b"
    using executor_step.return [of 2 ?a] by simp
  moreover have "executor_step ?b ?c"
    using executor_step.return [of 1 ?b] by simp
  ultimately show ?thesis
    using two_running unfolding update_calculated_properties_reaches_def
    by (meson rtranclp.rtrancl_into_rtrancl)
qed

text \<open>
  C2, amended: \<open>update_calculated_properties\<close> hands the selected objects to a pool of
  at most \<open>MAX_THREAD_WORKERS\<close> = 20 worker threads.  At every moment at most 20
  objects are being updated, and every selected object is waiting, being updated or done,
  once; when no step is left, every selected object is done.  The first 20 selected
  objects (all of them, when there are fewer) can be in the course of their update at the
  same time.
\<close>

theorem update_calculated_properties_thread_pool:
  "(update_calculated_properties_reaches obj_pks x \<longrightarrow>
      length (running x) \<le> MAX_THREAD_WORKERS
      \<and> mset (waiting x) + mset (running x) + mset (returned x) = mset obj_pks
      \<and> (\<not> (\<exists>y. executor_step x y) \<longrightarrow>
           waiting x = [] \<and> running x = [] \<and> mset (returned x) = mset obj_pks))
   \<and> (\<exists>y. update_calculated_properties_reaches obj_pks y
          \<and> running y = take MAX_THREAD_WORKERS obj_pks)"
proof (intro conjI impI)
  assume r: "update_calculated_properties_reaches obj_pks x"
  then have inv: "length (running x) \<le> MAX_THREAD_WORKERS
         \<and> mset (waiting x) + mset (running x) + mset (returned x) = mset obj_pks"
    unfolding update_calculated_properties_reaches_def by (rule reaches_invariant)
  then show "length (running x) \<le> MAX_THREAD_WORKERS" by simp
  from inv show "mset (waiting x) + mset (running x) + mset (returned x) = mset obj_pks"
    by simp
  assume "\<not> (\<exists>y. executor_step x y)"
  from executor_stuck [OF this] inv
  show "waiting x = []" "running x = []" "mset (returned x) = mset obj_pks" by simp_all
next
  let ?k = "min MAX_THREAD_WORKERS (length obj_pks)"
  have "executor_step\<^sup>*\<^sup>* (submitted obj_pks)
       \<lparr>waiting = drop ?k obj_pks, running = take ?k obj_pks, returned = []\<rparr>"
    by (rule start_many) simp_all
  moreover have "take ?k obj_pks = take MAX_THREAD_WORKERS obj_pks"
    by (simp add: min_def)
  ultimately show "\<exists>y. update_calculated_properties_reaches obj_pks y
          \<and> running y = take MAX_THREAD_WORKERS obj_pks"
    unfolding update_calculated_properties_reaches_def
    by (intro exI [of _ "\<lparr>waiting = drop ?k obj_pks, running = take ?k obj_pks, returned = []\<rparr>"])
       simp
qed

theorem update_calculated_properties_thread_pool_witness:
  "update_calculated_properties_reaches [1, 2] \<lparr>waiting = [], running = [], returned = [2, 1]\<rparr>
   \<and> mset [2, 1] = mset [1, 2::nat]
   \<and> (\<exists>y. update_calculated_properties_reaches [1, 2] y \<and> running y = [1, 2])"
proof -
  note inst = update_calculated_properties_thread_pool
    [of "[1, 2]" "\<lparr>waiting = [], running = [], returned = [2, 1]\<rparr>"]
  from inst second_returns_first have "mset [2, 1] = mset [1, 2::nat]" by simp
  moreover from inst
  have "\<exists>y. update_calculated_properties_reaches [1, 2] y \<and> running y = [1, 2]"
    by (simp add: MAX_THREAD_WORKERS_def)
  ultimately show ?thesis using second_returns_first by simp
qed

text \<open>
  C2, as it is stated, says that the selected objects are updated one at a time.  With two
  selected objects the executor reaches a state in which both are being updated.
\<close>

theorem one_at_a_time_counterexample:
  "\<not> (\<forall>obj_pks x. update_calculated_properties_reaches obj_pks x \<longrightarrow> length (running x) \<le> 1)"
proof
  assume "\<forall>obj_pks x. update_calculated_properties_reaches obj_pks x \<longrightarrow> length (running x) \<le> 1"
  then have "update_calculated_properties_reaches [1, 2]
               \<lparr>waiting = [], running = [1, 2], returned = []\<rparr> \<longrightarrow>
             length (running \<lparr>waiting = [], running = [1, 2::nat], returned = []\<rparr>) \<le> 1"
    by blast
  with two_running show False by simp
qed

section \<open>Properties of the updates from the external API\<close>

lemma update_or_create_refinery_apply:
  "update_or_create_refinery api t x i = (if i = x then refinery_after api t i else t i)"
  by (auto simp: update_or_create_refinery_def refinery_after_def split: sum.splits option.splits)

lemma refinery_after_update_or_create:
  "refinery_after api (update_or_create_refinery api t x) i = refinery_after api t i"
  by (auto simp: update_or_create_refinery_def refinery_after_def split: sum.splits option.splits)

lemma foldl_update_or_create_refinery:
  "foldl (update_or_create_refinery api) t ids i
     = (if i \<in> set ids then refinery_after api t i else t i)"
proof (induction ids arbitrary: t)
  case Nil
  show ?case by simp
next
  case (Cons x xs)
  have "foldl (update_or_create_refinery api) t (x # xs) i
          = foldl (update_or_create_refinery api) (update_or_create_refinery api t x) xs i"
    by simp
  also have "\<dots> = (if i \<in> set xs
                     then refinery_after api (update_or_create_refinery api t x) i
                     else update_or_create_refinery api t x i)"
    by (rule Cons.IH)
  also have "\<dots> = (if i \<in> set (x # xs) then refinery_after api t i else t i)"
    unfolding refinery_after_update_or_create update_or_create_refinery_apply by simp
  finally show ?case .
qed

lemma update_refineries_from_esi_table:
  assumes "corporation_structures api = Inr ids"
  shows "update_refineries_from_esi api t
           = (None, \<lambda>i. if i \<in> set ids then refinery_after api t i else None)"
  using assms
  by (auto simp: update_refineries_from_esi_def restrict_map_def fun_eq_iff
      foldl_update_or_create_refinery)

lemma first_fails_run:
  "update_refineries_from_esi answers_first_fails three_refineries
   = (None, [1000000000001 \<mapsto> athanor,
             1000000000002 \<mapsto> athanor\<lparr>refinery_name := ''Auga - Paradise Beta''\<rparr>])"
  by (auto simp: update_refineries_from_esi_def answers_first_fails_def three_refineries_def
      update_or_create_refinery_def restrict_map_def fun_eq_iff)

text \<open>
  C3, amended: an error of the external API while the list of the structures of the
  corporation is fetched ends \<open>update_refineries_from_esi\<close> with the exception and
  leaves the stored refineries as they were.  When the list is fetched the job ends
  without an exception: a structure of the list whose details raise is passed over and
  its refinery stays as it was, a structure whose details are fetched is stored with the
  name of the details, and a refinery that the list does not have is removed.  An error
  while the mining ledger is fetched ends \<open>update_mining_ledger_from_esi\<close> with the
  exception, with the flag \<open>ledger_last_update_ok\<close> not set, the time of the update
  recorded and the rest of the refinery as it was; when the ledger is fetched it is
  stored and the flag is set.
\<close>

theorem api_errors_of_update_jobs:
  "(\<forall>e. corporation_structures api = Inl e \<longrightarrow>
       update_refineries_from_esi api t = (Some e, t))
   \<and> (\<forall>ids. corporation_structures api = Inr ids \<longrightarrow>
         update_refineries_from_esi api t =
           (None,
            \<lambda>i. if i \<in> set ids
                then (case universe_structure api i of
                        Inl e \<Rightarrow> t i
                      | Inr name \<Rightarrow>
                          (case t i of
                             None \<Rightarrow>
                               Some \<lparr>refinery_name = name, ledger_last_update_ok = False,
                                     ledger_last_update_at = None, mining_ledger = []\<rparr>
                           | Some r \<Rightarrow> Some (r\<lparr>refinery_name := name\<rparr>)))
                else None))
   \<and> (\<forall>ids. corporation_structures api = Inr ids \<longrightarrow>
         fst (update_refineries_from_esi api t) = None
         \<and> dom (snd (update_refineries_from_esi api t)) \<subseteq> set ids)
   \<and> (\<forall>e. mining_observer api i = Inl e \<longrightarrow>
         fst (update_mining_ledger_from_esi api now i r) = Some e
         \<and> \<not> ledger_last_update_ok (snd (update_mining_ledger_from_esi api now i r))
         \<and> ledger_last_update_at (snd (update_mining_ledger_from_esi api now i r)) = Some now
         \<and> mining_ledger (snd (update_mining_ledger_from_esi api now i r)) = mining_ledger r
         \<and> refinery_name (snd (update_mining_ledger_from_esi api now i r)) = refinery_name r)
   \<and> (\<forall>records. mining_observer api i = Inr records \<longrightarrow>
         update_mining_ledger_from_esi api now i r =
           (None, r\<lparr>ledger_last_update_ok := True, ledger_last_update_at := Some now,
                    mining_ledger := records\<rparr>))"
proof (intro conjI allI impI)
  fix ids assume ids: "corporation_structures api = Inr ids"
  from update_refineries_from_esi_table [OF this, of t]
  show "update_refineries_from_esi api t =
           (None,
            \<lambda>i. if i \<in> set ids
                then (case universe_structure api i of
                        Inl e \<Rightarrow> t i
                      | Inr name \<Rightarrow>
                          (case t i of
                             None \<Rightarrow>
                               Some \<lparr>refinery_name = name, ledger_last_update_ok = False,
                                     ledger_last_update_at = None, mining_ledger = []\<rparr>
                           | Some r \<Rightarrow> Some (r\<lparr>refinery_name := name\<rparr>)))
                else None)"
    by (simp add: refinery_after_def fun_eq_iff)
  from ids show "fst (update_refineries_from_esi api t) = None"
    by (simp add: update_refineries_from_esi_def)
  from ids show "dom (snd (update_refineries_from_esi api t)) \<subseteq> set ids"
    by (auto simp: update_refineries_from_esi_def)
qed (auto simp: update_refineries_from_esi_def update_mining_ledger_from_esi_def Let_def)

theorem api_errors_of_update_jobs_witness:
  "update_refineries_from_esi answers_list_fails [1990000000001 \<mapsto> athanor]
     = (Some OSError, [1990000000001 \<mapsto> athanor])
   \<and> fst (update_refineries_from_esi answers_first_fails three_refineries) = None
   \<and> snd (update_refineries_from_esi answers_first_fails three_refineries) 1000000000001
       = Some athanor
   \<and> snd (update_refineries_from_esi answers_first_fails three_refineries) 1000000000002
       = Some (athanor\<lparr>refinery_name := ''Auga - Paradise Beta''\<rparr>)
   \<and> snd (update_refineries_from_esi answers_first_fails three_refineries) 1990000000001 = None
   \<and> fst (update_mining_ledger_from_esi answers_first_fails 1618430400000000 1000000000001
             athanor) = Some OSError
   \<and> \<not> ledger_last_update_ok
         (snd (update_mining_ledger_from_esi answers_first_fails 1618430400000000 1000000000001
                 athanor))
   \<and> ledger_last_update_at
         (snd (update_mining_ledger_from_esi answers_first_fails 1618430400000000 1000000000001
                 athanor)) = Some 1618430400000000"
proof -
  have a: "corporation_structures answers_list_fails = Inl OSError"
    by (simp add: answers_list_fails_def)
  have b: "corporation_structures answers_first_fails = Inr [1000000000001, 1000000000002]"
    by (simp add: answers_first_fails_def)
  have c: "mining_observer answers_first_fails 1000000000001 = Inl OSError"
    by (simp add: answers_first_fails_def)
  note t1 = api_errors_of_update_jobs [of answers_list_fails "[1990000000001 \<mapsto> athanor]"]
  note t2 = api_errors_of_update_jobs
    [of answers_first_fails three_refineries 1000000000001 1618430400000000 athanor]
  have 1: "update_refineries_from_esi answers_list_fails [1990000000001 \<mapsto> athanor]
     = (Some OSError, [1990000000001 \<mapsto> athanor])"
    by (rule mp [OF spec [OF conjunct1 [OF t1]] a])
  note run = mp [OF spec [OF conjunct1 [OF conjunct2 [OF t2]]] b]
  have 2: "fst (update_refineries_from_esi answers_first_fails three_refineries) = None"
    unfolding run by simp
  have 3: "snd (update_refineries_from_esi answers_first_fails three_refineries) 1000000000001
       = Some athanor"
    unfolding run by (simp add: answers_first_fails_def three_refineries_def)
  have 4: "snd (update_refineries_from_esi answers_first_fails three_refineries) 1000000000002
       = Some (athanor\<lparr>refinery_name := ''Auga - Paradise Beta''\<rparr>)"
    unfolding run by (simp add: answers_first_fails_def three_refineries_def)
  have 5: "snd (update_refineries_from_esi answers_first_fails three_refineries) 1990000000001
       = None"
    unfolding run by simp
  note 6 = mp [OF spec [OF conjunct1 [OF conjunct2 [OF conjunct2 [OF conjunct2 [OF t2]]]]] c]
  from 1 2 3 4 5 6 show ?thesis by (intro conjI) simp_all
qed

text \<open>
  C3, as it is stated, says that every error of the external API ends the job with the
  exception.  An error of the details of one structure does not: the job goes on with the
  other structures and ends without an exception.
\<close>

theorem api_error_does_not_abort_counterexample:
  "\<not> (\<forall>api t ids i e.
        corporation_structures api = Inr ids \<and> i \<in> set ids \<and> universe_structure api i = Inl e
          \<longrightarrow> fst (update_refineries_from_esi api t) = Some e)"
proof
  assume "\<forall>api t ids i e.
        corporation_structures api = Inr ids \<and> i \<in> set ids \<and> universe_structure api i = Inl e
          \<longrightarrow> fst (update_refineries_from_esi api t) = Some e"
  then have "corporation_structures answers_first_fails = Inr [1000000000001, 1000000000002]
       \<and> 1000000000001 \<in> set [1000000000001, 1000000000002::nat]
       \<and> universe_structure answers_first_fails 1000000000001 = Inl OSError
          \<longrightarrow> fst (update_refineries_from_esi answers_first_fails three_refineries)
                = Some OSError"
    by blast
  then show False
    by (simp add: first_fails_run) (simp add: answers_first_fails_def)
qed

section \<open>Properties of the views\<close>

subsection \<open>The report of owned values\<close>

lemma percent_of_grand_total_eq:
  "percent_of_grand_total gt m = Inr (expected_percent gt (moon_value m))"
  by (simp add: percent_of_grand_total_def expected_percent_def py_div_def)

lemma moon_rows_total: "\<exists>rows. moon_rows ranks gt label counter ms = Inr rows"
proof (induction ms arbitrary: counter)
  case Nil
  show ?case by simp
next
  case (Cons m ms)
  from Cons.IH [of "counter + 1"] obtain rows
    where "moon_rows ranks gt label (counter + 1) ms = Inr rows" by blast
  then show ?case by (simp add: percent_of_grand_total_eq)
qed

lemma moon_rows_percent:
  "moon_rows ranks gt label counter ms = Inr rows \<Longrightarrow> row \<in> set rows \<Longrightarrow>
     \<not> is_total row \<and> grand_total_percent row = expected_percent gt (row_moon_value row)"
proof (induction ms arbitrary: counter rows)
  case Nil
  then show ?case by simp
next
  case (Cons m ms)
  from moon_rows_total [of ranks gt label "counter + 1" ms] obtain rest
    where rest: "moon_rows ranks gt label (counter + 1) ms = Inr rest" by blast
  with Cons.prems(1) have rows: "rows =
      \<lparr>corporation = label, moon_display = moon_name m, moon_sort = counter,
        region = Some (region_name m), row_moon_value = moon_value m,
        rank = (case ranks (m_pk m) of None \<Rightarrow> None | Some r \<Rightarrow> Some (r + 1)),
        total = None, is_total = False,
        grand_total_percent = expected_percent gt (moon_value m)\<rparr> # rest"
    by (simp add: percent_of_grand_total_eq)
  show ?case
  proof (cases "row \<in> set rest")
    case True
    from Cons.IH [OF rest True] show ?thesis .
  next
    case False
    with Cons.prems(2) rows show ?thesis by auto
  qed
qed

lemma corporation_rows_total: "\<exists>rows. corporation_rows ranks gt cs = Inr rows"
proof (induction cs)
  case Nil
  show ?case by simp
next
  case (Cons c cs)
  obtain name ms t where c: "c = (name, ms, t)" by (cases c)
  from moon_rows_total [of ranks gt "(name, length ms)" 0 ms] obtain rows
    where "moon_rows ranks gt (name, length ms) 0 ms = Inr rows" by blast
  moreover from Cons.IH obtain others where "corporation_rows ranks gt cs = Inr others" by blast
  ultimately show ?case by (simp add: c)
qed

lemma corporation_rows_percent:
  "corporation_rows ranks gt cs = Inr rows \<Longrightarrow> row \<in> set rows \<Longrightarrow> \<not> is_total row \<Longrightarrow>
     grand_total_percent row = expected_percent gt (row_moon_value row)"
proof (induction cs arbitrary: rows)
  case Nil
  then show ?case by simp
next
  case (Cons c cs)
  obtain name ms t where c: "c = (name, ms, t)" by (cases c)
  from moon_rows_total [of ranks gt "(name, length ms)" 0 ms] obtain mrows
    where mrows: "moon_rows ranks gt (name, length ms) 0 ms = Inr mrows" by blast
  from corporation_rows_total [of ranks gt cs] obtain others
    where others: "corporation_rows ranks gt cs = Inr others" by blast
  from Cons.prems(1) have rows:
    "rows = mrows @ [total_row (name, length ms) (length ms) t] @ others"
    by (simp add: c mrows others)
  from Cons.prems(2) rows consider "row \<in> set mrows"
    | "row = total_row (name, length ms) (length ms) t" | "row \<in> set others"
    by auto
  then show ?case
  proof cases
    case 1
    from moon_rows_percent [OF mrows 1] show ?thesis by simp
  next
    case 2
    with Cons.prems(3) show ?thesis by (simp add: total_row_def)
  next
    case 3
    from Cons.IH [OF others 3 Cons.prems(3)] show ?thesis .
  qed
qed

lemma corporation_add_totals_ok:
  "totals_ok cs \<Longrightarrow> totals_ok (corporation_add c m cs)"
  by (induction c m cs rule: corporation_add.induct)
     (auto simp: totals_ok_def value_or_zero_def)

lemma corporation_add_sum:
  "sum_list (map (\<lambda>(c, ms, t). t) (corporation_add c m cs))
     = sum_list (map (\<lambda>(c, ms, t). t) cs) + value_or_zero m"
  by (induction c m cs rule: corporation_add.induct) (auto simp: value_or_zero_def)

lemma foldl_corporation_add:
  "totals_ok acc \<Longrightarrow>
   totals_ok (foldl (\<lambda>acc m. corporation_add (the (refinery_owner m)) m acc) acc ms)
   \<and> sum_list (map (\<lambda>(c, ms, t). t)
         (foldl (\<lambda>acc m. corporation_add (the (refinery_owner m)) m acc) acc ms))
       = sum_list (map (\<lambda>(c, ms, t). t) acc) + sum_list (map value_or_zero ms)"
proof (induction ms arbitrary: acc)
  case Nil
  then show ?case by simp
next
  case (Cons m ms)
  from Cons.IH [OF corporation_add_totals_ok [OF Cons.prems]]
  show ?case by (simp add: corporation_add_sum add.assoc)
qed

lemma sum_list_sort_key:
  fixes f :: "'a \<Rightarrow> rat"
  shows "sum_list (map f (sort_key k xs)) = sum_list (map f xs)"
proof -
  have "mset (map f (sort_key k xs)) = mset (map f xs)" by simp
  then show ?thesis by (metis sum_mset_sum_list)
qed

lemma corporation_moons_totals_ok: "totals_ok (corporation_moons all_moons)"
  unfolding corporation_moons_def
  using foldl_corporation_add [of "[]"] by (simp add: totals_ok_def)

lemma grand_total_eq:
  "grand_total all_moons = sum_list (map value_or_zero (moon_query all_moons))"
  unfolding grand_total_def corporation_moons_def
  using foldl_corporation_add [of "[]" "sort_key moon_name (moon_query all_moons)"]
  by (simp add: totals_ok_def sum_list_sort_key)

lemma report_example:
  "report_owned_value_data [moon_a, moon_b, moon_c, moon_d] =
     Inr [\<lparr>corporation = (''Queen Industries'', 1), moon_display = ''Abune I - Moon 1'',
            moon_sort = 0, region = Some ''Everyshore'', row_moon_value = Some 300,
            rank = Some 1, total = None, is_total = False, grand_total_percent = Some 75\<rparr>,
          \<lparr>corporation = (''Queen Industries'', 1), moon_display = ''TOTAL'',
            moon_sort = 1, region = None, row_moon_value = None, rank = None,
            total = Some 300, is_total = True, grand_total_percent = None\<rparr>,
          \<lparr>corporation = (''Wayne Technologies'', 2), moon_display = ''Auga V - Moon 1'',
            moon_sort = 0, region = Some ''Heimatar'', row_moon_value = Some 100,
            rank = Some 2, total = None, is_total = False, grand_total_percent = Some 25\<rparr>,
          \<lparr>corporation = (''Wayne Technologies'', 2), moon_display = ''Auga V - Moon 2'',
            moon_sort = 1, region = Some ''Heimatar'', row_moon_value = None,
            rank = None, total = None, is_total = False, grand_total_percent = Some 0\<rparr>,
          \<lparr>corporation = (''Wayne Technologies'', 2), moon_display = ''TOTAL'',
            moon_sort = 2, region = None, row_moon_value = None, rank = None,
            total = Some 100, is_total = True, grand_total_percent = None\<rparr>]"
  by (simp add: report_owned_value_data_def corporation_moons_def moon_query_def
      moon_ranks_def grand_total_def percent_of_grand_total_def py_div_def total_row_def
      default_if_none_def moon_a_def moon_b_def moon_c_def moon_d_def upt_rec Let_def)

lemma report_example_zero:
  "report_owned_value_data [moon_b, moon_d] =
     Inr [\<lparr>corporation = (''Wayne Technologies'', 1), moon_display = ''Auga V - Moon 2'',
            moon_sort = 0, region = Some ''Heimatar'', row_moon_value = None,
            rank = None, total = None, is_total = False, grand_total_percent = None\<rparr>,
          \<lparr>corporation = (''Wayne Technologies'', 1), moon_display = ''TOTAL'',
            moon_sort = 1, region = None, row_moon_value = None, rank = None,
            total = Some 0, is_total = True, grand_total_percent = None\<rparr>]"
  by (simp add: report_owned_value_data_def corporation_moons_def moon_query_def
      moon_ranks_def grand_total_def percent_of_grand_total_def py_div_def total_row_def
      default_if_none_def moon_a_def moon_b_def moon_c_def moon_d_def upt_rec Let_def)

text \<open>
  C10: \<open>report_owned_value_data\<close> never divides by zero.  For every collection of moons
  the function returns rows and raises nothing; in each row of a moon
  \<open>grand_total_percent\<close> is the value of the moon (0 for \<open>None\<close>) divided by the
  grand total, times 100, when the grand total is strictly positive, and \<open>None\<close>
  otherwise; the division is evaluated only under that test; and a moon whose value is
  \<open>None\<close> adds 0 to the total of its corporation and to the grand total.
\<close>

theorem report_never_divides_by_zero:
  "(\<exists>rows. report_owned_value_data all_moons = Inr rows)
   \<and> (\<forall>rows row. report_owned_value_data all_moons = Inr rows \<and> row \<in> set rows
          \<and> \<not> is_total row \<longrightarrow>
          grand_total_percent row =
            (if grand_total all_moons > 0
             then Some (default_if_none (row_moon_value row) 0 / grand_total all_moons * 100)
             else None))
   \<and> (\<forall>gt m. percent_of_grand_total gt m =
          (if gt > 0 then map_sum id (\<lambda>q. Some (q * 100)) (py_div (default_if_none (moon_value m) 0) gt)
           else Inr None))
   \<and> grand_total all_moons
        = sum_list (map (\<lambda>m. default_if_none (moon_value m) 0) (moon_query all_moons))
   \<and> list_all (\<lambda>(c, ms, t). t = sum_list (map (\<lambda>m. default_if_none (moon_value m) 0) ms))
        (corporation_moons all_moons)"
proof (intro conjI allI impI)
  show "\<exists>rows. report_owned_value_data all_moons = Inr rows"
    unfolding report_owned_value_data_def by (rule corporation_rows_total)
  show "grand_total_percent row =
            (if grand_total all_moons > 0
             then Some (default_if_none (row_moon_value row) 0 / grand_total all_moons * 100)
             else None)"
    if "report_owned_value_data all_moons = Inr rows \<and> row \<in> set rows \<and> \<not> is_total row"
    for rows row
    using that corporation_rows_percent [of "moon_ranks all_moons" "grand_total all_moons"
        "corporation_moons all_moons" rows row]
    by (simp add: report_owned_value_data_def expected_percent_def)
  show "percent_of_grand_total gt m =
          (if gt > 0 then map_sum id (\<lambda>q. Some (q * 100)) (py_div (default_if_none (moon_value m) 0) gt)
           else Inr None)" for gt m
    by (simp add: percent_of_grand_total_def py_div_def)
  show "grand_total all_moons
        = sum_list (map (\<lambda>m. default_if_none (moon_value m) 0) (moon_query all_moons))"
    using grand_total_eq [of all_moons] by (simp add: value_or_zero_def [abs_def])
  show "list_all (\<lambda>(c, ms, t). t = sum_list (map (\<lambda>m. default_if_none (moon_value m) 0) ms))
        (corporation_moons all_moons)"
    using corporation_moons_totals_ok [of all_moons]
    by (simp add: totals_ok_def value_or_zero_def [abs_def])
qed


theorem report_never_divides_by_zero_witness:
  "(\<exists>rows. report_owned_value_data [moon_b, moon_d] = Inr rows
       \<and> rows \<noteq> [] \<and> \<not> is_total (hd rows) \<and> grand_total_percent (hd rows) = None)
   \<and> grand_total [moon_b, moon_d] = 0
   \<and> (\<exists>rows. report_owned_value_data [moon_a, moon_b, moon_c, moon_d] = Inr rows
       \<and> rows \<noteq> [] \<and> \<not> is_total (hd rows) \<and> grand_total_percent (hd rows) = Some 75)
   \<and> grand_total [moon_a, moon_b, moon_c, moon_d] = 400"
proof -
  have z: "grand_total [moon_b, moon_d] = 0"
    using report_never_divides_by_zero [of "[moon_b, moon_d]"]
    by (simp add: moon_query_def moon_b_def moon_d_def default_if_none_def)
  have g: "grand_total [moon_a, moon_b, moon_c, moon_d] = 400"
    using report_never_divides_by_zero [of "[moon_a, moon_b, moon_c, moon_d]"]
    by (simp add: moon_query_def moon_a_def moon_b_def moon_c_def moon_d_def default_if_none_def)
  from report_never_divides_by_zero [of "[moon_b, moon_d]"] report_example_zero z
  have "\<exists>rows. report_owned_value_data [moon_b, moon_d] = Inr rows
       \<and> rows \<noteq> [] \<and> \<not> is_total (hd rows) \<and> grand_total_percent (hd rows) = None"
    by simp
  moreover
  from report_never_divides_by_zero [of "[moon_a, moon_b, moon_c, moon_d]"] report_example g
  have "\<exists>rows. report_owned_value_data [moon_a, moon_b, moon_c, moon_d] = Inr rows
       \<and> rows \<noteq> [] \<and> \<not> is_total (hd rows) \<and> grand_total_percent (hd rows) = Some 75"
    by simp
  ultimately show ?thesis using z g by simp
qed

subsection \<open>The details page of a moon\<close>

lemma moon_details_cases:
  "moon_details moon_pks u moon_pk =
     (if \<not> is_authenticated u \<or> \<not> has_perm u ''moonmining.basic_access'' then RedirectToLogin
      else if moon_pk \<notin> moon_pks then HttpResponseNotFound
      else if \<not> has_perm u ''moonmining.view_all_moons''
              \<and> \<not> has_perm u ''moonmining.extractions_access''
      then HttpResponseUnauthorized
      else Rendered ''moonmining/moon_details.html'')"
  by (simp add: moon_details_def login_required_def permission_required_def moon_details_body_def)

text \<open>
  C7, amended: for every request of a logged-in user who holds
  \<open>moonmining.basic_access\<close>, the answer is 404 when no moon with the primary key
  exists; otherwise it is 401 when the user has neither \<open>moonmining.view_all_moons\<close>
  nor \<open>moonmining.extractions_access\<close>; otherwise the details page is rendered.  The
  existence of the moon is checked before these two permissions.  Every other request is
  answered with the redirect to the login page, before the moon is looked up.
\<close>

theorem moon_details_responses:
  "(is_authenticated u \<and> has_perm u ''moonmining.basic_access'' \<longrightarrow>
      (moon_pk \<notin> moon_pks \<longrightarrow> status_code (moon_details moon_pks u moon_pk) = 404)
      \<and> (moon_pk \<in> moon_pks
           \<and> \<not> has_perm u ''moonmining.view_all_moons''
           \<and> \<not> has_perm u ''moonmining.extractions_access'' \<longrightarrow>
             status_code (moon_details moon_pks u moon_pk) = 401)
      \<and> (moon_pk \<in> moon_pks
           \<and> (has_perm u ''moonmining.view_all_moons''
                \<or> has_perm u ''moonmining.extractions_access'') \<longrightarrow>
             moon_details moon_pks u moon_pk = Rendered ''moonmining/moon_details.html''))
   \<and> (\<not> (is_authenticated u \<and> has_perm u ''moonmining.basic_access'') \<longrightarrow>
        moon_details moon_pks u moon_pk = RedirectToLogin)"
  by (simp add: moon_details_cases)

theorem moon_details_responses_witness:
  "status_code (moon_details {1, 2} (user_with [''moonmining.basic_access'']) 3) = 404
   \<and> status_code (moon_details {1, 2} (user_with [''moonmining.basic_access'']) 1) = 401
   \<and> moon_details {1, 2}
        (user_with [''moonmining.basic_access'', ''moonmining.extractions_access'']) 1
       = Rendered ''moonmining/moon_details.html''
   \<and> moon_details {1, 2} (user_with [''moonmining.extractions_access'']) 1 = RedirectToLogin"
  using moon_details_responses [of "user_with [''moonmining.basic_access'']" 3 "{1, 2}"]
    moon_details_responses [of "user_with [''moonmining.basic_access'']" 1 "{1, 2}"]
    moon_details_responses
      [of "user_with [''moonmining.basic_access'', ''moonmining.extractions_access'']" 1 "{1, 2}"]
    moon_details_responses [of "user_with [''moonmining.extractions_access'']" 1 "{1, 2}"]
  by (simp add: user_with_def)

text \<open>
  C7, as it is stated, says of every request of a logged-in user: the answer is 404 when
  the moon does not exist, else 401 when the user has neither
  \<open>moonmining.view_all_moons\<close> nor \<open>moonmining.extractions_access\<close>, else the page.
  It fails for a logged-in user without \<open>moonmining.basic_access\<close>, who is sent to the
  login page whether the moon exists or not.
\<close>

theorem moon_details_claim_counterexample:
  "\<not> (\<forall>moon_pks u moon_pk.
        is_authenticated u \<longrightarrow>
        moon_details moon_pks u moon_pk =
          (if moon_pk \<notin> moon_pks then HttpResponseNotFound
           else if \<not> has_perm u ''moonmining.view_all_moons''
                   \<and> \<not> has_perm u ''moonmining.extractions_access''
           then HttpResponseUnauthorized
           else Rendered ''moonmining/moon_details.html''))"
proof
  assume "\<forall>moon_pks u moon_pk.
        is_authenticated u \<longrightarrow>
        moon_details moon_pks u moon_pk =
          (if moon_pk \<notin> moon_pks then HttpResponseNotFound
           else if \<not> has_perm u ''moonmining.view_all_moons''
                   \<and> \<not> has_perm u ''moonmining.extractions_access''
           then HttpResponseUnauthorized
           else Rendered ''moonmining/moon_details.html'')"
  then have "is_authenticated (user_with []) \<longrightarrow>
        moon_details {1, 2} (user_with []) 3 =
          (if (3::nat) \<notin> {1, 2} then HttpResponseNotFound
           else if \<not> has_perm (user_with []) ''moonmining.view_all_moons''
                   \<and> \<not> has_perm (user_with []) ''moonmining.extractions_access''
           then HttpResponseUnauthorized
           else Rendered ''moonmining/moon_details.html'')"
    by blast
  then show False
    by (simp add: moon_details_cases user_with_def)
qed

subsection \<open>The extractions of a category\<close>

lemma extraction_data_rows_expected:
  "list_all (\<lambda>e. e_moon e \<noteq> None) es \<Longrightarrow>
     extraction_data_rows now es = Inr (map (expected_row now) es)"
  by (induction es)
     (auto simp: extraction_data_row_def moon_details_button_html_def expected_row_def)

lemma extraction_data_rows_raises:
  "\<not> list_all (\<lambda>e. e_moon e \<noteq> None) es \<Longrightarrow>
     extraction_data_rows now es = Inl AttributeError"
  by (induction es)
     (auto simp: extraction_data_row_def moon_details_button_html_def
        split: sum.splits option.splits)

lemma extractions_data_permitted:
  assumes "is_authenticated u" and "has_perm u ''moonmining.extractions_access''"
    and "has_perm u ''moonmining.basic_access''"
  shows "extractions_data u now h es category =
           (case extractions_data_body now h es category of
              Inl e \<Rightarrow> Raises e
            | Inr data \<Rightarrow> JsonResponse data)"
  using assms by (simp add: extractions_data_def login_required_def permission_required_def)

lemma extractions_data_refused:
  assumes "\<not> (is_authenticated u \<and> has_perm u ''moonmining.extractions_access''
              \<and> has_perm u ''moonmining.basic_access'')"
  shows "extractions_data u now h es category = RedirectToLogin"
  using assms by (auto simp: extractions_data_def login_required_def permission_required_def)

lemma row_ids_expected: "map row_id (map (expected_row now) es) = map e_pk es"
  by (simp add: expected_row_def)

lemma pks_partition:
  "mset (map e_pk (filter (\<lambda>e. e_ready_time e < c) es))
     + mset (map e_pk (filter (\<lambda>e. e_ready_time e \<ge> c) es)) = mset (map e_pk es)"
  by (induction es) auto

lemma list_all_filter: "list_all P es \<Longrightarrow> list_all P (filter Q es)"
  by (induction es) auto

text \<open>
  C6, amended: for a request of a logged-in user who holds
  \<open>moonmining.extractions_access\<close> and \<open>moonmining.basic_access\<close>, at a fixed time, and
  when the refinery of every selected extraction has a moon, \<open>extractions_data\<close>
  partitions the extractions by the cutoff, which is the time minus the hours until stale.
  The category \<open>past\<close> answers with the rows of exactly the extractions whose ready time
  is strictly before the cutoff, \<open>upcoming\<close> with those whose ready time is at or after
  it, in the order of the query, so that every extraction is in exactly one of the two;
  any other category answers with the empty list.  Every other request is answered with
  the redirect to the login page.
\<close>

theorem extractions_partition:
  "(is_authenticated u \<and> has_perm u ''moonmining.extractions_access''
      \<and> has_perm u ''moonmining.basic_access'' \<longrightarrow>
      (list_all (\<lambda>e. e_moon e \<noteq> None)
           (filter (\<lambda>e. e_ready_time e < now - h * 3600 * 1000000) es) \<longrightarrow>
         extractions_data u now h es ''past'' =
           JsonResponse (map (expected_row now)
             (filter (\<lambda>e. e_ready_time e < now - h * 3600 * 1000000) es)))
      \<and> (list_all (\<lambda>e. e_moon e \<noteq> None)
           (filter (\<lambda>e. e_ready_time e \<ge> now - h * 3600 * 1000000) es) \<longrightarrow>
         extractions_data u now h es ''upcoming'' =
           JsonResponse (map (expected_row now)
             (filter (\<lambda>e. e_ready_time e \<ge> now - h * 3600 * 1000000) es)))
      \<and> (category \<noteq> ''past'' \<and> category \<noteq> ''upcoming'' \<longrightarrow>
           extractions_data u now h es category = JsonResponse [])
      \<and> (list_all (\<lambda>e. e_moon e \<noteq> None) es \<longrightarrow>
           (\<exists>past upcoming.
              extractions_data u now h es ''past'' = JsonResponse past
              \<and> extractions_data u now h es ''upcoming'' = JsonResponse upcoming
              \<and> mset (map row_id past) + mset (map row_id upcoming) = mset (map e_pk es))))
   \<and> (\<not> (is_authenticated u \<and> has_perm u ''moonmining.extractions_access''
            \<and> has_perm u ''moonmining.basic_access'') \<longrightarrow>
        extractions_data u now h es category = RedirectToLogin)"
proof (intro conjI impI)
  assume "\<not> (is_authenticated u \<and> has_perm u ''moonmining.extractions_access''
            \<and> has_perm u ''moonmining.basic_access'')"
  then show "extractions_data u now h es category = RedirectToLogin"
    by (rule extractions_data_refused)
next
  assume u: "is_authenticated u \<and> has_perm u ''moonmining.extractions_access''
      \<and> has_perm u ''moonmining.basic_access''"
  note permitted = extractions_data_permitted [of u now h es]
  let ?c = "now - h * 3600 * 1000000"
  have past: "extractions_data u now h es ''past'' =
           JsonResponse (map (expected_row now) (filter (\<lambda>e. e_ready_time e < ?c) es))"
    if "list_all (\<lambda>e. e_moon e \<noteq> None) (filter (\<lambda>e. e_ready_time e < ?c) es)"
    using u that extraction_data_rows_expected [OF that, of now]
    by (simp add: permitted extractions_data_body_def extractions_of_category_def cutover_dt_def)
  have upcoming: "extractions_data u now h es ''upcoming'' =
           JsonResponse (map (expected_row now) (filter (\<lambda>e. e_ready_time e \<ge> ?c) es))"
    if "list_all (\<lambda>e. e_moon e \<noteq> None) (filter (\<lambda>e. e_ready_time e \<ge> ?c) es)"
    using u that extraction_data_rows_expected [OF that, of now]
    by (simp add: permitted extractions_data_body_def extractions_of_category_def cutover_dt_def)
  {
    assume "list_all (\<lambda>e. e_moon e \<noteq> None) (filter (\<lambda>e. e_ready_time e < ?c) es)"
    then show "extractions_data u now h es ''past'' =
           JsonResponse (map (expected_row now) (filter (\<lambda>e. e_ready_time e < ?c) es))"
      by (rule past)
  }
  {
    assume "list_all (\<lambda>e. e_moon e \<noteq> None) (filter (\<lambda>e. e_ready_time e \<ge> ?c) es)"
    then show "extractions_data u now h es ''upcoming'' =
           JsonResponse (map (expected_row now) (filter (\<lambda>e. e_ready_time e \<ge> ?c) es))"
      by (rule upcoming)
  }
  {
    assume "category \<noteq> ''past'' \<and> category \<noteq> ''upcoming''"
    then show "extractions_data u now h es category = JsonResponse []"
      using u by (simp add: permitted extractions_data_body_def extractions_of_category_def)
  }
  {
    assume m: "list_all (\<lambda>e. e_moon e \<noteq> None) es"
    have "mset (map row_id (map (expected_row now) (filter (\<lambda>e. e_ready_time e < ?c) es)))
            + mset (map row_id (map (expected_row now) (filter (\<lambda>e. e_ready_time e \<ge> ?c) es)))
          = mset (map e_pk es)"
      unfolding row_ids_expected by (rule pks_partition)
    with past [OF list_all_filter [OF m]] upcoming [OF list_all_filter [OF m]]
    show "\<exists>past upcoming.
              extractions_data u now h es ''past'' = JsonResponse past
              \<and> extractions_data u now h es ''upcoming'' = JsonResponse upcoming
              \<and> mset (map row_id past) + mset (map row_id upcoming) = mset (map e_pk es)"
      by blast
  }
qed

lemma example_past_12:
  "filter (\<lambda>e. e_ready_time e < example_now - 12 * 3600 * 1000000)
     [extraction_old, extraction_recent, extraction_new] = [extraction_old]"
  by (simp add: example_now_def extraction_old_def extraction_recent_def extraction_new_def)

lemma example_past_1:
  "filter (\<lambda>e. e_ready_time e < example_now - 1 * 3600 * 1000000)
     [extraction_old, extraction_recent, extraction_new] = [extraction_old, extraction_recent]"
  by (simp add: example_now_def extraction_old_def extraction_recent_def extraction_new_def)

lemma example_upcoming_12:
  "filter (\<lambda>e. e_ready_time e \<ge> example_now - 12 * 3600 * 1000000)
     [extraction_old, extraction_recent, extraction_new] = [extraction_recent, extraction_new]"
  by (simp add: example_now_def extraction_old_def extraction_recent_def extraction_new_def)

lemma example_user:
  "is_authenticated extractions_user \<and> has_perm extractions_user ''moonmining.extractions_access''
   \<and> has_perm extractions_user ''moonmining.basic_access''"
  by (simp add: extractions_user_def user_with_def)

theorem extractions_partition_witness:
  "extractions_data extractions_user example_now 12
       [extraction_old, extraction_recent, extraction_new] ''past''
     = JsonResponse
         [\<lparr>row_id = 1, row_ready_time = 1618344000000000,
           row_corporation_name = ''Wayne Technologies'',
           row_alliance_name = ''Wayne Enterprises'', row_volume = Some 1288475,
           row_value = None, row_details = 40161708, row_is_ready = True\<rparr>]
   \<and> extractions_data extractions_user example_now 1
       [extraction_old, extraction_recent, extraction_new] ''past''
     = JsonResponse [expected_row example_now extraction_old,
                     expected_row example_now extraction_recent]
   \<and> extractions_data extractions_user example_now 12
       [extraction_old, extraction_recent, extraction_new] ''upcoming''
     = JsonResponse [expected_row example_now extraction_recent,
                     expected_row example_now extraction_new]
   \<and> extractions_data extractions_user example_now 12
       [extraction_old, extraction_recent, extraction_new] ''all'' = JsonResponse []
   \<and> extractions_data (user_with [''moonmining.basic_access'']) example_now 12
       [extraction_old, extraction_recent, extraction_new] ''past'' = RedirectToLogin"
proof -
  let ?es = "[extraction_old, extraction_recent, extraction_new]"
  note inst = extractions_partition [of extractions_user _ _ ?es]
  have moons: "list_all (\<lambda>e. e_moon e \<noteq> None) (filter P ?es)" for P
    by (rule list_all_filter)
       (simp add: extraction_old_def extraction_recent_def extraction_new_def)
  have "extractions_data extractions_user example_now 12 ?es ''past'' =
          JsonResponse (map (expected_row example_now)
            (filter (\<lambda>e. e_ready_time e < example_now - 12 * 3600 * 1000000) ?es))"
    by (rule mp [OF conjunct1 [OF mp [OF conjunct1 [OF inst [of example_now 12 "''past''"]]
          example_user]] moons])
  then have a: "extractions_data extractions_user example_now 12 ?es ''past''
             = JsonResponse [expected_row example_now extraction_old]"
    unfolding example_past_12 by simp
  have "extractions_data extractions_user example_now 1 ?es ''past'' =
          JsonResponse (map (expected_row example_now)
            (filter (\<lambda>e. e_ready_time e < example_now - 1 * 3600 * 1000000) ?es))"
    by (rule mp [OF conjunct1 [OF mp [OF conjunct1 [OF inst [of example_now 1 "''past''"]]
          example_user]] moons])
  then have b: "extractions_data extractions_user example_now 1 ?es ''past''
             = JsonResponse [expected_row example_now extraction_old,
                             expected_row example_now extraction_recent]"
    unfolding example_past_1 by simp
  have "extractions_data extractions_user example_now 12 ?es ''upcoming'' =
          JsonResponse (map (expected_row example_now)
            (filter (\<lambda>e. e_ready_time e \<ge> example_now - 12 * 3600 * 1000000) ?es))"
    by (rule mp [OF conjunct1 [OF conjunct2 [OF mp [OF conjunct1
          [OF inst [of example_now 12 "''upcoming''"]] example_user]]] moons])
  then have c: "extractions_data extractions_user example_now 12 ?es ''upcoming''
             = JsonResponse [expected_row example_now extraction_recent,
                             expected_row example_now extraction_new]"
    unfolding example_upcoming_12 by simp
  have other: "''all'' \<noteq> ''past'' \<and> ''all'' \<noteq> ''upcoming''" by simp
  have d: "extractions_data extractions_user example_now 12 ?es ''all'' = JsonResponse []"
    by (rule mp [OF conjunct1 [OF conjunct2 [OF conjunct2 [OF mp [OF conjunct1
          [OF inst [of example_now 12 "''all''"]] example_user]]]] other])
  have refused: "\<not> (is_authenticated (user_with [''moonmining.basic_access''])
            \<and> has_perm (user_with [''moonmining.basic_access'']) ''moonmining.extractions_access''
            \<and> has_perm (user_with [''moonmining.basic_access'']) ''moonmining.basic_access'')"
    by (simp add: user_with_def)
  have e: "extractions_data (user_with [''moonmining.basic_access'']) example_now 12 ?es ''past''
             = RedirectToLogin"
    by (rule mp [OF conjunct2 [OF extractions_partition
          [of "user_with [''moonmining.basic_access'']" example_now 12 ?es "''past''"]] refused])
  have r: "expected_row example_now extraction_old =
         \<lparr>row_id = 1, row_ready_time = 1618344000000000,
           row_corporation_name = ''Wayne Technologies'',
           row_alliance_name = ''Wayne Enterprises'', row_volume = Some 1288475,
           row_value = None, row_details = 40161708, row_is_ready = True\<rparr>"
    by (simp add: expected_row_def extraction_old_def example_now_def)
  from a b c d e show ?thesis unfolding r by (intro conjI)
qed

text \<open>
  C6, as it is stated, says of the endpoint that every category other than the two answers
  with the empty list and that \<open>past\<close> answers with the extractions before the cutoff.
  A logged-in user without \<open>moonmining.extractions_access\<close> is sent to the login page
  for every category; and for the user with both permissions the category \<open>past\<close>
  raises \<open>AttributeError\<close> when it selects an extraction of a refinery without a moon.
\<close>

theorem extractions_data_claim_counterexample:
  "extractions_data (user_with [''moonmining.basic_access'']) example_now 12
       [extraction_old, extraction_new] ''all'' = RedirectToLogin
   \<and> extractions_data (user_with [''moonmining.basic_access'']) example_now 12
       [extraction_old, extraction_new] ''all'' \<noteq> JsonResponse []
   \<and> extractions_data (user_with [''moonmining.basic_access'']) example_now 12
       [extraction_old, extraction_new] ''past'' = RedirectToLogin
   \<and> e_ready_time extraction_moonless < example_now - 12 * 3600 * 1000000
   \<and> extractions_data extractions_user example_now 12
       [extraction_moonless, extraction_new] ''past'' = Raises AttributeError"
  by (simp add: extractions_data_def login_required_def permission_required_def user_with_def
      extractions_user_def extractions_data_body_def extractions_of_category_def cutover_dt_def
      example_now_def extraction_moonless_def extraction_new_def extraction_old_def
      extraction_data_row_def moon_details_button_html_def)

end
